theory Spec2Isabelle
  imports Complex_Main
begin

section \<open>JavaScript values\<close>

text \<open>
  Decoded frames, game-state snapshots, JWT claims and parsed generator output are plain
  JavaScript values as \<^verbatim>\<open>JSON.parse\<close> and \<^verbatim>\<open>msgpack.decode\<close> build them. An object is
  an association list of its own properties (the first entry of a key is the one read).
  \<open>JNaN\<close> is the number NaN, which JSON text cannot carry but MessagePack can.
\<close>

datatype jsval =
    JUndefined
  | JNull
  | JBool bool
  | JNum rat
  | JNaN
  | JStr string
  | JArr "jsval list"
  | JObj "(string \<times> jsval) list"

datatype error = TypeError

text \<open>ToBoolean, as used by \<^verbatim>\<open>!x\<close>, \<^verbatim>\<open>x && y\<close>, \<^verbatim>\<open>x || y\<close> and \<^verbatim>\<open>!!x\<close>.\<close>

fun truthy :: "jsval \<Rightarrow> bool" where
  "truthy JUndefined = False"
| "truthy JNull = False"
| "truthy (JBool b) = b"
| "truthy (JNum n) = (n \<noteq> 0)"
| "truthy JNaN = False"
| "truthy (JStr s) = (s \<noteq> [])"
| "truthy (JArr xs) = True"
| "truthy (JObj kvs) = True"

fun nullish :: "jsval \<Rightarrow> bool" where
  "nullish JUndefined = True"
| "nullish JNull = True"
| "nullish v = False"

text \<open>\<^verbatim>\<open>typeof v === 'number'\<close>\<close>

fun isNumber :: "jsval \<Rightarrow> bool" where
  "isNumber (JNum n) = True"
| "isNumber JNaN = True"
| "isNumber v = False"

text \<open>
  Reading a named property of a value that is neither null nor undefined. The names the
  server reads (\<^verbatim>\<open>type\<close>, \<^verbatim>\<open>state\<close>, \<^verbatim>\<open>enable\<close>, \<^verbatim>\<open>ball\<close>, \<^verbatim>\<open>x\<close>, ...) are on no prototype,
  so primitives and arrays answer undefined. The one exception is \<^verbatim>\<open>sub\<close> on a string,
  where \<^verbatim>\<open>String.prototype.sub\<close> is found: token payloads that are bare strings are not
  covered, the payload of a verified token is taken to be an object.
\<close>

fun getField :: "jsval \<Rightarrow> string \<Rightarrow> jsval" where
  "getField (JObj kvs) k = (case map_of kvs k of None \<Rightarrow> JUndefined | Some v \<Rightarrow> v)"
| "getField v k = JUndefined"

text \<open>\<^verbatim>\<open>v.k\<close>: a TypeError on null and undefined.\<close>

definition readProp :: "jsval \<Rightarrow> string \<Rightarrow> error + jsval" where
  "readProp v k = (if nullish v then Inl TypeError else Inr (getField v k))"

text \<open>\<^verbatim>\<open>v?.k\<close>\<close>

definition optProp :: "jsval \<Rightarrow> string \<Rightarrow> jsval" where
  "optProp v k = (if nullish v then JUndefined else getField v k)"

text \<open>\<^verbatim>\<open>a || b\<close>\<close>

definition orElse :: "jsval \<Rightarrow> jsval \<Rightarrow> jsval" where
  "orElse a b = (if truthy a then a else b)"

text \<open>\<^verbatim>\<open>xs[i]\<close> on a value known to be an array: undefined past the end.\<close>

fun elemAt :: "jsval \<Rightarrow> nat \<Rightarrow> jsval" where
  "elemAt (JArr xs) i = (if i < length xs then xs ! i else JUndefined)"
| "elemAt v i = JUndefined"

text \<open>
  ToPrimitive, as run by \<^verbatim>\<open>Number(v)\<close> and by a template literal: it raises a TypeError
  on an object whose own \<^verbatim>\<open>toString\<close> property hides the inherited method (an own property
  of decoded data is never callable), and an array joins the conversions of its elements.
\<close>

fun coercible :: "jsval \<Rightarrow> bool" where
  "coercible (JObj kvs) = (map_of kvs ''toString'' = None)"
| "coercible (JArr xs) = list_all coercible xs"
| "coercible v = True"

definition bindE :: "error + 'a \<Rightarrow> ('a \<Rightarrow> error + 'b) \<Rightarrow> error + 'b" where
  "bindE m f = (case m of Inl e \<Rightarrow> Inl e | Inr x \<Rightarrow> f x)"

text \<open>
  \<^verbatim>\<open>String.prototype.trim\<close> on ASCII text: the six ASCII white-space characters are
  stripped. The other code points it strips (U+00A0, U+FEFF, U+2028, U+2029 and the Unicode
  space separators) are not covered; the texts of this theory are ASCII.
\<close>

definition isSpace :: "char \<Rightarrow> bool" where
  "isSpace c = (c = CHR '' '' \<or> c = CHR 0x09 \<or> c = CHR 0x0A \<or> c = CHR 0x0B
     \<or> c = CHR 0x0C \<or> c = CHR 0x0D)"

definition trim :: "string \<Rightarrow> string" where
  "trim s = rev (dropWhile isSpace (rev (dropWhile isSpace s)))"

section \<open>Outbound events, sessions and the server state\<close>

text \<open>
  The text of a \<^verbatim>\<open>commentary\<close> event is either a string the server holds, or the
  template \<^verbatim>\<open>(AI speed set to ${parsed.aiSpeed})\<close>, kept as the value it prints.
\<close>

datatype ctext = Plain string | AiSpeedSet jsval

datatype event =
    EvWelcome jsval
  | EvError string
  | EvCommentary ctext
  | EvCommentaryChunk string
  | EvCoach string
  | EvCoachStatus bool
  | EvControl jsval
  | EvPong int

text \<open>
  The per-connection record of \<^verbatim>\<open>metaByWs\<close>. A field is \<open>None\<close> when the object lacks
  it, which is the case of the \<^verbatim>\<open>{}\<close> that \<^verbatim>\<open>metaByWs.get(ws) || {}\<close> falls back to.
\<close>

record session_meta =
  lastCommentAt :: "int option"
  lastCoachAt :: "int option"
  coachEnabled :: "bool option"
  lastState :: jsval

definition emptyMeta :: session_meta where
  "emptyMeta = \<lparr>lastCommentAt = None, lastCoachAt = None, coachEnabled = None,
     lastState = JUndefined\<rparr>"

definition initialMeta :: session_meta where
  "initialMeta = \<lparr>lastCommentAt = Some 0, lastCoachAt = Some 0, coachEnabled = Some False,
     lastState = JNull\<rparr>"

text \<open>\<^verbatim>\<open>t || 0\<close> on a timestamp field.\<close>

fun orZero :: "int option \<Rightarrow> int" where
  "orZero None = 0"
| "orZero (Some t) = t"

record conn =
  user :: jsval
  readyOpen :: bool

record config =
  commentaryIntervalMs :: int
  coachIntervalMs :: int
  stateSendLimitPerSecond :: int
  commentaryLimitPerMinute :: int
  simulatedMode :: bool

text \<open>
  The library functions the server calls on untrusted input. \<open>None\<close> is the exception
  each of them raises on input it rejects.
\<close>

record lib =
  jsonParse :: "string \<Rightarrow> jsval option"
  msgpackDecode :: "string \<Rightarrow> jsval option"
  jwtVerify :: "string \<Rightarrow> jsval option"

subsection \<open>Admission control\<close>

record limiter =
  keyPrefix :: string
  points :: int
  duration :: int

record bucket =
  consumedPoints :: int
  expiresAt :: int

type_synonym limiter_store = "string \<times> jsval \<Rightarrow> bucket option"

definition stateLimiter :: "config \<Rightarrow> limiter" where
  "stateLimiter cfg = \<lparr>keyPrefix = ''rl_state'', points = stateSendLimitPerSecond cfg,
     duration = 1\<rparr>"

definition commentaryLimiter :: "config \<Rightarrow> limiter" where
  "commentaryLimiter cfg = \<lparr>keyPrefix = ''rl_commentary'',
     points = commentaryLimitPerMinute cfg, duration = 60\<rparr>"

text \<open>
  Modelled from the spec: \<^verbatim>\<open>RateLimiterRedis.consume\<close> of the rate-limiter-flexible
  package and the Redis store behind it, which are not in the repository. The spec's
  admission quota record is a window counter keyed by category and identity with a point
  budget and a duration; each request tries to consume one point; exceeding the budget
  fails the consume operation without mutating further state. The window opens at the
  first consumption and lasts \<open>duration\<close> seconds; times are milliseconds.
\<close>

definition currentBucket :: "limiter \<Rightarrow> jsval \<Rightarrow> int \<Rightarrow> limiter_store \<Rightarrow> bucket" where
  "currentBucket l k t st =
     (case st (keyPrefix l, k) of
        None \<Rightarrow> \<lparr>consumedPoints = 0, expiresAt = t + 1000 * duration l\<rparr>
      | Some b \<Rightarrow> if t < expiresAt b then b
                  else \<lparr>consumedPoints = 0, expiresAt = t + 1000 * duration l\<rparr>)"

definition consume :: "limiter \<Rightarrow> jsval \<Rightarrow> int \<Rightarrow> limiter_store \<Rightarrow> bool \<times> limiter_store" where
  "consume l k t st =
     (let b = currentBucket l k t st in
      if consumedPoints b + 1 \<le> points l
      then (True, st((keyPrefix l, k) \<mapsto> b\<lparr>consumedPoints := consumedPoints b + 1\<rparr>))
      else (False, st))"

text \<open>The points a key may still consume at time \<open>t\<close>.\<close>

definition remaining :: "limiter \<Rightarrow> jsval \<Rightarrow> int \<Rightarrow> limiter_store \<Rightarrow> int" where
  "remaining l k t st = points l - consumedPoints (currentBucket l k t st)"

subsection \<open>The server state\<close>

text \<open>
  A connection is named by a number, handed out in order as object identities are.
  \<open>clients\<close> is \<^verbatim>\<open>wss.clients\<close> in insertion order, \<open>sent\<close> every \<^verbatim>\<open>ws.send\<close> in the
  order made, \<open>calls\<close> every call of a text generator (simulated or provider) with the
  time it is made at.
\<close>

datatype gen_call = CommentaryCall nat int | CoachCall nat int

record server =
  clients :: "(nat \<times> conn) list"
  metaByWs :: "nat \<Rightarrow> session_meta option"
  limiterStore :: limiter_store
  sent :: "(nat \<times> event) list"
  calls :: "gen_call list"
  nextWs :: nat

definition initialServer :: server where
  "initialServer = \<lparr>clients = [], metaByWs = (\<lambda>w. None), limiterStore = (\<lambda>k. None),
     sent = [], calls = [], nextWs = 0\<rparr>"

definition send :: "nat \<Rightarrow> event \<Rightarrow> server \<Rightarrow> server" where
  "send ws ev s = s\<lparr>sent := sent s @ [(ws, ev)]\<rparr>"

text \<open>The events one connection was sent, in order.\<close>

definition sentTo :: "nat \<Rightarrow> server \<Rightarrow> event list" where
  "sentTo ws s = map snd (filter (\<lambda>p. fst p = ws) (sent s))"

text \<open>\<^verbatim>\<open>metaByWs.get(ws) || {}\<close>\<close>

definition metaOr :: "server \<Rightarrow> nat \<Rightarrow> session_meta" where
  "metaOr s ws = (case metaByWs s ws of None \<Rightarrow> emptyMeta | Some m \<Rightarrow> m)"

definition setMeta :: "nat \<Rightarrow> session_meta \<Rightarrow> server \<Rightarrow> server" where
  "setMeta ws m s = s\<lparr>metaByWs := (metaByWs s)(ws \<mapsto> m)\<rparr>"

text \<open>\<^verbatim>\<open>ws.user?.sub || 'anon'\<close>\<close>

definition userKey :: "jsval \<Rightarrow> jsval" where
  "userKey u = orElse (optProp u ''sub'') (JStr ''anon'')"

section \<open>Connection establishment\<close>

record upgrade_req =
  secWebSocketProtocol :: "string option"
  queryToken :: "string option"

datatype upgrade_result = BadRequest400 | Unauthorized401 | Upgraded nat

fun splitOn :: "char \<Rightarrow> string \<Rightarrow> string list" where
  "splitOn c [] = [[]]"
| "splitOn c (x # xs) =
     (if x = c then [] # splitOn c xs
      else (case splitOn c xs of [] \<Rightarrow> [[x]] | w # ws \<Rightarrow> (x # w) # ws))"

definition parseProtocols :: "upgrade_req \<Rightarrow> string list" where
  "parseProtocols req =
     filter (\<lambda>p. p \<noteq> [])
       (map trim (splitOn CHR '','' (case secWebSocketProtocol req of None \<Rightarrow> [] | Some h \<Rightarrow> h)))"

text \<open>
  The credential: the second sub-protocol, else the \<^verbatim>\<open>token\<close> query parameter
  (\<open>queryToken\<close> is what the \<^verbatim>\<open>try\<close> block around the URL parse leaves in \<^verbatim>\<open>token\<close>).
  An empty string counts as no credential.
\<close>

definition findToken :: "string list \<Rightarrow> upgrade_req \<Rightarrow> string option" where
  "findToken protocols req =
     (let fromProto = (if 1 < length protocols \<and> protocols ! 1 \<noteq> [] then Some (protocols ! 1)
                       else None)
      in case fromProto of
           Some tok \<Rightarrow> Some tok
         | None \<Rightarrow> (case queryToken req of
                       None \<Rightarrow> None
                     | Some q \<Rightarrow> if q = [] then None else Some q))"

text \<open>\<^verbatim>\<open>wss.on('connection')\<close>: register the session, then greet.\<close>

definition onConnection :: "jsval \<Rightarrow> server \<Rightarrow> server" where
  "onConnection u s =
     (let ws = nextWs s;
          s1 = s\<lparr>clients := clients s @ [(ws, \<lparr>user = u, readyOpen = True\<rparr>)],
                 nextWs := Suc ws\<rparr>;
          s2 = setMeta ws initialMeta s1
      in send ws (EvWelcome u) s2)"

text \<open>\<^verbatim>\<open>server.on('upgrade')\<close>\<close>

definition handleUpgrade :: "lib \<Rightarrow> upgrade_req \<Rightarrow> server \<Rightarrow> upgrade_result \<times> server" where
  "handleUpgrade L req s =
     (let protocols = parseProtocols req in
      if protocols = [] \<or> hd protocols \<noteq> ''pong-proto.v1'' then (BadRequest400, s)
      else (case findToken protocols req of
              None \<Rightarrow> (Unauthorized401, s)
            | Some tok \<Rightarrow>
                (case jwtVerify L tok of
                   None \<Rightarrow> (Unauthorized401, s)
                 | Some u \<Rightarrow> (Upgraded (nextWs s), onConnection u s))))"

text \<open>\<^verbatim>\<open>ws.on('close')\<close>, with the socket leaving \<^verbatim>\<open>wss.clients\<close>.\<close>

definition handleClose :: "nat \<Rightarrow> server \<Rightarrow> server" where
  "handleClose ws s =
     s\<lparr>clients := filter (\<lambda>p. fst p \<noteq> ws) (clients s),
       metaByWs := (metaByWs s)(ws := None)\<rparr>"

section \<open>The per-message handler\<close>

definition decodeFrame :: "lib \<Rightarrow> bool \<Rightarrow> string \<Rightarrow> jsval option" where
  "decodeFrame L isBinary msg = (if isBinary then msgpackDecode L msg else jsonParse L msg)"

text \<open>\<^verbatim>\<open>Array.isArray(data) && data[0] === 'state'\<close>\<close>

fun isStateArray :: "jsval \<Rightarrow> bool" where
  "isStateArray (JArr xs) = (elemAt (JArr xs) 0 = JStr ''state'')"
| "isStateArray v = False"

text \<open>\<^verbatim>\<open>data && data.type === k\<close>\<close>

definition typeIs :: "jsval \<Rightarrow> string \<Rightarrow> error + bool" where
  "typeIs data k =
     (if truthy data then bindE (readProp data ''type'') (\<lambda>v. Inr (v = JStr k))
      else Inr False)"

text \<open>The body shared by the two state branches, after \<^verbatim>\<open>stateLimiter.consume(userKey)\<close>.\<close>

definition ingestState :: "config \<Rightarrow> int \<Rightarrow> nat \<Rightarrow> jsval \<Rightarrow> jsval \<Rightarrow> server \<Rightarrow> server" where
  "ingestState cfg t ws key st s =
     (case consume (stateLimiter cfg) key t (limiterStore s) of
        (ok, store') \<Rightarrow>
          if \<not> ok
          then send ws (EvError ''state rate limit exceeded'') (s\<lparr>limiterStore := store'\<rparr>)
          else setMeta ws ((metaOr s ws)\<lparr>lastState := st\<rparr>) (s\<lparr>limiterStore := store'\<rparr>))"

definition coachEnable :: "nat \<Rightarrow> jsval \<Rightarrow> server \<Rightarrow> server" where
  "coachEnable ws en s =
     (let m = (metaOr s ws)\<lparr>coachEnabled := Some (truthy en), lastCoachAt := Some 0\<rparr>
      in send ws (EvCoachStatus (truthy en)) (setMeta ws m s))"

text \<open>
  \<^verbatim>\<open>ws.on('message')\<close> at time \<open>t\<close>, for the connection \<open>ws\<close> whose verified claims are \<open>u\<close>.
  \<open>Inl\<close> is an exception leaving the handler.
\<close>

definition handleMessage ::
  "config \<Rightarrow> lib \<Rightarrow> int \<Rightarrow> nat \<Rightarrow> jsval \<Rightarrow> bool \<Rightarrow> string \<Rightarrow> server \<Rightarrow> error + server" where
  "handleMessage cfg L t ws u isBinary msg s =
     (case decodeFrame L isBinary msg of
        None \<Rightarrow> Inr (send ws (EvError ''invalid message'') s)
      | Some data \<Rightarrow>
          (let key = userKey u in
           if isStateArray data then Inr (ingestState cfg t ws key (elemAt data 1) s)
           else bindE (typeIs data ''state'') (\<lambda>isState.
             if isState
             then bindE (readProp data ''state'') (\<lambda>st. Inr (ingestState cfg t ws key st s))
             else bindE (typeIs data ''coach_enable'') (\<lambda>isCoach.
               if isCoach
               then bindE (readProp data ''enable'') (\<lambda>en. Inr (coachEnable ws en s))
               else bindE (typeIs data ''ping'') (\<lambda>isPing.
                 if isPing then Inr (send ws (EvPong t) s)
                 else Inr (send ws (EvError ''unknown message type'') s))))))"

text \<open>
  The commands of the wire protocol, in the spec's words: a two-element array
  \<^verbatim>\<open>["state", payload]\<close>, an object \<^verbatim>\<open>{type: "state", state}\<close>,
  \<^verbatim>\<open>{type: "coach_enable", enable}\<close> or \<^verbatim>\<open>{type: "ping"}\<close>; any other shape is unrecognized.
\<close>

datatype command = CmdState jsval | CmdCoachEnable jsval | CmdPing | CmdUnrecognized

fun frameCommand :: "jsval \<Rightarrow> command" where
  "frameCommand (JArr xs) =
     (if elemAt (JArr xs) 0 = JStr ''state'' then CmdState (elemAt (JArr xs) 1)
      else CmdUnrecognized)"
| "frameCommand (JObj kvs) =
     (if getField (JObj kvs) ''type'' = JStr ''state''
        then CmdState (getField (JObj kvs) ''state'')
      else if getField (JObj kvs) ''type'' = JStr ''coach_enable''
        then CmdCoachEnable (getField (JObj kvs) ''enable'')
      else if getField (JObj kvs) ''type'' = JStr ''ping'' then CmdPing
      else CmdUnrecognized)"
| "frameCommand v = CmdUnrecognized"

text \<open>One \<^verbatim>\<open>error\<close> event to \<open>ws\<close> and nothing else changed.\<close>

definition errorOnly :: "nat \<Rightarrow> string \<Rightarrow> server \<Rightarrow> server \<Rightarrow> bool" where
  "errorOnly ws m s s' =
     (sent s' = sent s @ [(ws, EvError m)] \<and> metaByWs s' = metaByWs s
      \<and> limiterStore s' = limiterStore s \<and> clients s' = clients s
      \<and> calls s' = calls s \<and> nextWs s' = nextWs s)"

section \<open>Text generation\<close>

definition phrases :: "string list" where
  "phrases =
     [''Nice block!'', ''Amazing reflex!'',
      ''Edge of the paddle '' @ [CHR 0xE2, CHR 0x80, CHR 0x94] @ '' nearly missed!'',
      ''Fast return!'', ''Deep to the corner!'', ''Watch the angle!'',
      ''Move early to intercept'', ''Keep paddle centered'', ''Aim low for a tough return'']"

text \<open>
  \<^verbatim>\<open>generateSimulatedCommentary\<close>. \<open>r1\<close> and \<open>r2\<close> are its first two \<^verbatim>\<open>Math.random()\<close>
  draws, in \<open>[0, 1)\<close>, so the index is in range. \<open>directive\<close> is the text of
  \<^verbatim>\<open>JSON.stringify({ type: 'aiAdjust', aiSpeed: Number(aiSpeed.toFixed(2)) })\<close>, which
  rests on a third draw and on floating-point arithmetic and is taken as given.
\<close>

definition generateSimulatedCommentary :: "rat \<Rightarrow> rat \<Rightarrow> string \<Rightarrow> string" where
  "generateSimulatedCommentary r1 r2 directive =
     (let i = nat \<lfloor>r1 * of_nat (length phrases)\<rfloor>;
          p = (if i < length phrases then phrases ! i else [])
      in if r2 < 1 / 20 then directive else p)"

definition tips :: "string list" where
  "tips =
     [''Keep paddle centered and move small amounts; this reduces overcommit and increases reach for angled returns.'',
      ''Anticipate opponent returns by watching their paddle center; move preemptively rather than reacting late.'',
      ''Aim slightly ahead of the ball to push returns low '' @ [CHR 0xE2, CHR 0x80, CHR 0x94]
        @ '' low angles are harder to reach and often cause misses.'']"

definition generateSimulatedCoachTip :: "rat \<Rightarrow> string" where
  "generateSimulatedCoachTip r =
     (let i = nat \<lfloor>r * of_nat (length tips)\<rfloor> in if i < length tips then tips ! i else [])"

text \<open>
  What the provider returns, in the shape its client library types it: a streamed part
  carries an optional list of choices, a choice optional strings. \<open>streamThrows\<close> says
  the request or the iteration raises once the listed parts have been delivered.
\<close>

record choice =
  deltaContent :: "string option"
  deltaText :: "string option"
  choiceText :: "string option"

record provider_stream =
  streamParts :: "choice list option list"
  streamThrows :: bool

record coach_choice =
  messageContent :: "string option"
  completionText :: "string option"

datatype coach_response = CoachThrows | CoachResponse "coach_choice list option"

text \<open>What one tick draws and receives for each connection it generates for.\<close>

record gen_env =
  randPhrase :: "nat \<Rightarrow> rat"
  randDirective :: "nat \<Rightarrow> rat"
  directiveText :: "nat \<Rightarrow> string"
  providerStream :: "nat \<Rightarrow> provider_stream"
  randTip :: "nat \<Rightarrow> rat"
  coachResponse :: "nat \<Rightarrow> coach_response"

subsection \<open>Prompt construction\<close>

definition toPrimitive :: "jsval \<Rightarrow> error + jsval" where
  "toPrimitive v = (if coercible v then Inr v else Inl TypeError)"

text \<open>\<^verbatim>\<open>Number(s.a.b)\<close>, and \<^verbatim>\<open>${s.a.b}\<close>: the value read, or the TypeError.\<close>

definition readPath :: "jsval \<Rightarrow> string \<Rightarrow> string \<Rightarrow> error + jsval" where
  "readPath s a b = bindE (readProp s a) (\<lambda>obj. bindE (readProp obj b) toPrimitive)"

fun sequenceE :: "(error + 'a) list \<Rightarrow> error + 'a list" where
  "sequenceE [] = Inr []"
| "sequenceE (m # ms) = bindE m (\<lambda>x. bindE (sequenceE ms) (\<lambda>xs. Inr (x # xs)))"

text \<open>
  The \<^verbatim>\<open>userPrompt\<close> template of both schedulers: the ten values it interpolates, in
  the order read. Their rendering (\<^verbatim>\<open>toFixed\<close>) is floating-point formatting and is left
  out; it raises nothing.
\<close>

definition userPrompt :: "jsval \<Rightarrow> error + jsval list" where
  "userPrompt s =
     sequenceE
       [readPath s ''ball'' ''x'', readPath s ''ball'' ''y'',
        readPath s ''ball'' ''vx'', readPath s ''ball'' ''vy'',
        readPath s ''leftPaddle'' ''y'',
        readPath s ''rightPaddle'' ''y'', readPath s ''rightPaddle'' ''speed'',
        readPath s ''score'' ''player'', readPath s ''score'' ''ai'',
        bindE (readProp s ''running'') toPrimitive]"

subsection \<open>Routing generated text\<close>

text \<open>The simulated branch: \<^verbatim>\<open>parsed && parsed.type === 'aiAdjust'\<close>.\<close>

definition routeSimulated :: "lib \<Rightarrow> nat \<Rightarrow> string \<Rightarrow> server \<Rightarrow> server" where
  "routeSimulated L ws out s =
     (case jsonParse L out of
        None \<Rightarrow> send ws (EvCommentary (Plain out)) s
      | Some parsed \<Rightarrow>
          if truthy parsed \<and> getField parsed ''type'' = JStr ''aiAdjust''
          then (let s1 = send ws (EvControl parsed) s in
                if coercible (getField parsed ''aiSpeed'')
                then send ws (EvCommentary (AiSpeedSet (getField parsed ''aiSpeed''))) s1
                else send ws (EvCommentary (Plain out)) s1)
          else send ws (EvCommentary (Plain out)) s)"

text \<open>\<^verbatim>\<open>ch?.delta?.content || ch?.delta?.text || ch?.text || ''\<close>\<close>

definition orStr :: "string option \<Rightarrow> string \<Rightarrow> string" where
  "orStr a b = (case a of None \<Rightarrow> b | Some x \<Rightarrow> if x \<noteq> [] then x else b)"

definition textChunk :: "choice \<Rightarrow> string" where
  "textChunk ch = orStr (deltaContent ch) (orStr (deltaText ch) (orStr (choiceText ch) []))"

fun forwardChoices :: "nat \<Rightarrow> choice list \<Rightarrow> string \<times> server \<Rightarrow> string \<times> server" where
  "forwardChoices ws [] acc = acc"
| "forwardChoices ws (ch # chs) acc =
     (if textChunk ch \<noteq> []
      then forwardChoices ws chs
             (fst acc @ textChunk ch, send ws (EvCommentaryChunk (textChunk ch)) (snd acc))
      else forwardChoices ws chs acc)"

fun forwardParts :: "nat \<Rightarrow> choice list option list \<Rightarrow> string \<times> server \<Rightarrow> string \<times> server" where
  "forwardParts ws [] acc = acc"
| "forwardParts ws (p # ps) acc =
     forwardParts ws ps (forwardChoices ws (case p of None \<Rightarrow> [] | Some chs \<Rightarrow> chs) acc)"

text \<open>
  The streaming branch, after the loop:
  \<^verbatim>\<open>parsed && parsed.type === 'aiAdjust' && typeof parsed.aiSpeed === 'number'\<close>.
\<close>

definition isSpeedDirective :: "jsval \<Rightarrow> bool" where
  "isSpeedDirective parsed =
     (truthy parsed \<and> getField parsed ''type'' = JStr ''aiAdjust''
      \<and> isNumber (getField parsed ''aiSpeed''))"

definition finishStream :: "lib \<Rightarrow> nat \<Rightarrow> string \<Rightarrow> server \<Rightarrow> server" where
  "finishStream L ws aggregated s =
     (let finalText = trim aggregated in
      case jsonParse L finalText of
        None \<Rightarrow> send ws (EvCommentary (Plain finalText)) s
      | Some parsed \<Rightarrow>
          if isSpeedDirective parsed
          then send ws (EvCommentary (AiSpeedSet (getField parsed ''aiSpeed'')))
                 (send ws (EvControl parsed) s)
          else send ws (EvCommentary (Plain finalText)) s)"

definition streamCommentary :: "lib \<Rightarrow> nat \<Rightarrow> provider_stream \<Rightarrow> server \<Rightarrow> server" where
  "streamCommentary L ws strm s =
     (case forwardParts ws (streamParts strm) ([], s) of
        (aggregated, s1) \<Rightarrow>
          if streamThrows strm then send ws (EvCommentary (Plain ''[commentary error]'')) s1
          else finishStream L ws aggregated s1)"

text \<open>The non-empty text chunks a stream carries, in the order the loop meets them.\<close>

definition streamChunks :: "choice list option list \<Rightarrow> string list" where
  "streamChunks ps =
     filter (\<lambda>c. c \<noteq> [])
       (map textChunk (concat (map (\<lambda>p. case p of None \<Rightarrow> [] | Some chs \<Rightarrow> chs) ps)))"

text \<open>
  \<^verbatim>\<open>resp?.choices?.[0]?.message?.content ?? resp?.choices?.[0]?.text ?? '[coach error]'\<close>
\<close>

definition coachText :: "coach_choice list option \<Rightarrow> string" where
  "coachText chs =
     (case chs of
        None \<Rightarrow> ''[coach error]''
      | Some [] \<Rightarrow> ''[coach error]''
      | Some (ch # rest) \<Rightarrow>
          (case messageContent ch of
             Some c \<Rightarrow> c
           | None \<Rightarrow> (case completionText ch of Some x \<Rightarrow> x | None \<Rightarrow> ''[coach error]'')))"

section \<open>The two schedulers\<close>

text \<open>
  One pass of a scheduler's loop body for one connection, when nothing else runs while
  the body waits at its \<^verbatim>\<open>await\<close>s: the limiter and the generator answer at the tick time
  \<open>now\<close>. The first component is the exception that leaves the body, if any; what the body
  changed before raising stays. Ticks that overlap are in the section on overlapping
  commentary ticks below.
\<close>

definition commentarySession ::
  "config \<Rightarrow> lib \<Rightarrow> gen_env \<Rightarrow> int \<Rightarrow> nat \<times> conn \<Rightarrow> server \<Rightarrow> error option \<times> server" where
  "commentarySession cfg L env now wc s =
     (case wc of (ws, c) \<Rightarrow>
      if \<not> readyOpen c then (None, s)
      else (case metaByWs s ws of
        None \<Rightarrow> (None, s)
      | Some m \<Rightarrow>
          if \<not> truthy (lastState m) then (None, s)
          else if now - orZero (lastCommentAt m) < commentaryIntervalMs cfg then (None, s)
          else (case consume (commentaryLimiter cfg) (userKey (user c)) now (limiterStore s) of
            (ok, store') \<Rightarrow>
              if \<not> ok
              then (None,
                    setMeta ws (m\<lparr>lastCommentAt := Some now\<rparr>)
                      (send ws (EvCommentary (Plain ''[commentary rate-limited]''))
                         (s\<lparr>limiterStore := store'\<rparr>)))
              else (let s1 = setMeta ws (m\<lparr>lastCommentAt := Some now\<rparr>)
                               (s\<lparr>limiterStore := store'\<rparr>)
                    in case userPrompt (lastState m) of
                         Inl e \<Rightarrow> (Some e, s1)
                       | Inr prompt \<Rightarrow>
                           (let s2 = s1\<lparr>calls := calls s1 @ [CommentaryCall ws now]\<rparr> in
                            if simulatedMode cfg
                            then (None,
                                  routeSimulated L ws
                                    (generateSimulatedCommentary (randPhrase env ws)
                                       (randDirective env ws) (directiveText env ws)) s2)
                            else (None, streamCommentary L ws (providerStream env ws) s2))))))"

definition coachSession ::
  "config \<Rightarrow> gen_env \<Rightarrow> int \<Rightarrow> nat \<times> conn \<Rightarrow> server \<Rightarrow> error option \<times> server" where
  "coachSession cfg env now wc s =
     (case wc of (ws, c) \<Rightarrow>
      if \<not> readyOpen c then (None, s)
      else (case metaByWs s ws of
        None \<Rightarrow> (None, s)
      | Some m \<Rightarrow>
          if coachEnabled m \<noteq> Some True \<or> \<not> truthy (lastState m) then (None, s)
          else if now - orZero (lastCoachAt m) < coachIntervalMs cfg then (None, s)
          else (case consume (commentaryLimiter cfg) (userKey (user c)) now (limiterStore s) of
            (ok, store') \<Rightarrow>
              if \<not> ok
              then (None,
                    setMeta ws (m\<lparr>lastCoachAt := Some now\<rparr>)
                      (send ws (EvCoach ''[coach rate-limited]'') (s\<lparr>limiterStore := store'\<rparr>)))
              else (let s1 = setMeta ws (m\<lparr>lastCoachAt := Some now\<rparr>)
                               (s\<lparr>limiterStore := store'\<rparr>)
                    in case userPrompt (lastState m) of
                         Inl e \<Rightarrow> (Some e, s1)
                       | Inr prompt \<Rightarrow>
                           (let s2 = s1\<lparr>calls := calls s1 @ [CoachCall ws now]\<rparr> in
                            if simulatedMode cfg
                            then (None,
                                  send ws (EvCoach (generateSimulatedCoachTip (randTip env ws))) s2)
                            else (case coachResponse env ws of
                                    CoachThrows \<Rightarrow> (None, send ws (EvCoach ''[coach error]'') s2)
                                  | CoachResponse chs \<Rightarrow>
                                      (None, send ws (EvCoach (trim (coachText chs))) s2)))))))"

text \<open>
  \<^verbatim>\<open>for (const ws of wss.clients)\<close>: the body on each connection in turn; an exception
  ends the tick where it is raised.
\<close>

fun tickLoop ::
  "(nat \<times> conn \<Rightarrow> server \<Rightarrow> error option \<times> server) \<Rightarrow> (nat \<times> conn) list \<Rightarrow> server
   \<Rightarrow> error option \<times> server" where
  "tickLoop body [] s = (None, s)"
| "tickLoop body (wc # rest) s =
     (case body wc s of
        (Some e, s') \<Rightarrow> (Some e, s')
      | (None, s') \<Rightarrow> tickLoop body rest s')"

definition commentaryTick ::
  "config \<Rightarrow> lib \<Rightarrow> gen_env \<Rightarrow> int \<Rightarrow> server \<Rightarrow> error option \<times> server" where
  "commentaryTick cfg L env now s = tickLoop (commentarySession cfg L env now) (clients s) s"

definition coachTick :: "config \<Rightarrow> gen_env \<Rightarrow> int \<Rightarrow> server \<Rightarrow> error option \<times> server" where
  "coachTick cfg env now s = tickLoop (coachSession cfg env now) (clients s) s"

section \<open>Runs of the server\<close>

text \<open>
  What happens to the server, one thing at a time: each handler and each tick runs to
  its end at the time it is given before the next one starts. This leaves out every
  interleaving at an \<^verbatim>\<open>await\<close>; the next section puts the commentary ticks' own back.
\<close>

datatype input =
    InUpgrade upgrade_req
  | InMessage nat int bool string
  | InClosing nat
  | InClose nat
  | InCommentaryTick int gen_env
  | InCoachTick int gen_env

text \<open>The socket stops being open but is still in \<^verbatim>\<open>wss.clients\<close>.\<close>

definition markClosing :: "nat \<Rightarrow> server \<Rightarrow> server" where
  "markClosing ws s =
     s\<lparr>clients := map (\<lambda>p. if fst p = ws then (fst p, (snd p)\<lparr>readyOpen := False\<rparr>) else p)
                     (clients s)\<rparr>"

fun step :: "config \<Rightarrow> lib \<Rightarrow> input \<Rightarrow> server \<Rightarrow> server" where
  "step cfg L (InUpgrade req) s = snd (handleUpgrade L req s)"
| "step cfg L (InMessage ws t isBinary msg) s =
     (case map_of (clients s) ws of
        None \<Rightarrow> s
      | Some c \<Rightarrow> (case handleMessage cfg L t ws (user c) isBinary msg s of
                    Inl e \<Rightarrow> s
                  | Inr s' \<Rightarrow> s'))"
| "step cfg L (InClosing ws) s = markClosing ws s"
| "step cfg L (InClose ws) s = handleClose ws s"
| "step cfg L (InCommentaryTick now env) s = snd (commentaryTick cfg L env now s)"
| "step cfg L (InCoachTick now env) s = snd (coachTick cfg env now s)"

fun run :: "config \<Rightarrow> lib \<Rightarrow> input list \<Rightarrow> server \<Rightarrow> server" where
  "run cfg L [] s = s"
| "run cfg L (i # is) s = run cfg L is (step cfg L i s)"

text \<open>The times at which the commentary generator was called for one connection, in order.\<close>

fun commentaryTimes :: "nat \<Rightarrow> gen_call list \<Rightarrow> int list" where
  "commentaryTimes ws [] = []"
| "commentaryTimes ws (CommentaryCall w t # cs) =
     (if w = ws then t # commentaryTimes ws cs else commentaryTimes ws cs)"
| "commentaryTimes ws (CoachCall w t # cs) = commentaryTimes ws cs"

text \<open>Each element is at least \<open>d\<close> after the one before it.\<close>

fun spaced :: "int \<Rightarrow> int list \<Rightarrow> bool" where
  "spaced d [] = True"
| "spaced d [t] = True"
| "spaced d (t # t' # ts) = (t + d \<le> t' \<and> spaced d (t' # ts))"

section \<open>Overlapping commentary ticks\<close>

text \<open>
  The commentary callback of \<^verbatim>\<open>setInterval\<close> is an async function. It reads
  \<^verbatim>\<open>Date.now()\<close> once, and its loop is suspended at
  \<^verbatim>\<open>await commentaryLimiter.consume(userKey)\<close> and, with the provider, at
  \<^verbatim>\<open>await openaiClient.chat.completions.create(...)\<close> and at every step of
  \<^verbatim>\<open>for await (const part of stream)\<close>; meanwhile the timer starts the next callback. A
  suspended callback is a task: the time it read, the connections its loop has still to
  visit, and where it waits (for the limiter, with the connection and the record object it
  holds; or for the stream, with the text aggregated so far). Connections send no frame
  and do not close while the tasks of this section run.
\<close>

datatype tick_phase = AwaitConsume nat conn session_meta | AwaitStream nat string

record tick_task =
  taskNow :: int
  taskRest :: "(nat \<times> conn) list"
  taskPhase :: tick_phase

text \<open>
  The loop from its head: the gates are synchronous, so the loop skips on until a
  connection passes them and waits for the limiter there, or ends.
\<close>

fun nextAwait :: "config \<Rightarrow> int \<Rightarrow> (nat \<times> conn) list \<Rightarrow> server \<Rightarrow> tick_task option" where
  "nextAwait cfg now [] s = None"
| "nextAwait cfg now (wc # rest) s =
     (if \<not> readyOpen (snd wc) then nextAwait cfg now rest s
      else (case metaByWs s (fst wc) of
        None \<Rightarrow> nextAwait cfg now rest s
      | Some m \<Rightarrow>
          if \<not> truthy (lastState m) then nextAwait cfg now rest s
          else if now - orZero (lastCommentAt m) < commentaryIntervalMs cfg
            then nextAwait cfg now rest s
          else Some \<lparr>taskNow = now, taskRest = rest,
                      taskPhase = AwaitConsume (fst wc) (snd wc) m\<rparr>))"

text \<open>
  The limiter answers at time \<open>t\<close>. The body goes on as in \<open>commentarySession\<close>, writing the
  time the task read at its start into \<^verbatim>\<open>lastCommentAt\<close>; the generator is called at \<open>t\<close>,
  and \<open>calls\<close> records that time. In simulated mode the loop goes on at once; with the
  provider it waits for the stream.
\<close>

definition afterConsume ::
  "config \<Rightarrow> lib \<Rightarrow> gen_env \<Rightarrow> int \<Rightarrow> tick_task \<Rightarrow> server \<Rightarrow> tick_task option \<times> server" where
  "afterConsume cfg L env t task s =
     (case taskPhase task of
        AwaitStream ws aggregated \<Rightarrow> (Some task, s)
      | AwaitConsume ws c captured \<Rightarrow>
          (let now = taskNow task;
               m = (case metaByWs s ws of None \<Rightarrow> captured | Some m' \<Rightarrow> m')
           in case consume (commentaryLimiter cfg) (userKey (user c)) t (limiterStore s) of
             (ok, store') \<Rightarrow>
               if \<not> ok
               then (let s' = setMeta ws (m\<lparr>lastCommentAt := Some now\<rparr>)
                                (send ws (EvCommentary (Plain ''[commentary rate-limited]''))
                                   (s\<lparr>limiterStore := store'\<rparr>))
                     in (nextAwait cfg now (taskRest task) s', s'))
               else (let s1 = setMeta ws (m\<lparr>lastCommentAt := Some now\<rparr>)
                                (s\<lparr>limiterStore := store'\<rparr>)
                     in case userPrompt (lastState m) of
                          Inl e \<Rightarrow> (None, s1)
                        | Inr prompt \<Rightarrow>
                            (let s2 = s1\<lparr>calls := calls s1 @ [CommentaryCall ws t]\<rparr> in
                             if simulatedMode cfg
                             then (let s3 = routeSimulated L ws
                                              (generateSimulatedCommentary (randPhrase env ws)
                                                 (randDirective env ws) (directiveText env ws)) s2
                                   in (nextAwait cfg now (taskRest task) s3, s3))
                             else (Some (task\<lparr>taskPhase := AwaitStream ws []\<rparr>), s2)))))"

text \<open>
  A part of the stream arrives; and the stream ends, or raises, after which the loop goes
  on to the next connection.
\<close>

definition afterPart :: "choice list option \<Rightarrow> tick_task \<Rightarrow> server \<Rightarrow> tick_task option \<times> server" where
  "afterPart part task s =
     (case taskPhase task of
        AwaitConsume ws c captured \<Rightarrow> (Some task, s)
      | AwaitStream ws aggregated \<Rightarrow>
          (case forwardChoices ws (case part of None \<Rightarrow> [] | Some chs \<Rightarrow> chs) (aggregated, s) of
             (aggregated', s') \<Rightarrow> (Some (task\<lparr>taskPhase := AwaitStream ws aggregated'\<rparr>), s')))"

definition afterStream ::
  "config \<Rightarrow> lib \<Rightarrow> bool \<Rightarrow> tick_task \<Rightarrow> server \<Rightarrow> tick_task option \<times> server" where
  "afterStream cfg L raised task s =
     (case taskPhase task of
        AwaitConsume ws c captured \<Rightarrow> (Some task, s)
      | AwaitStream ws aggregated \<Rightarrow>
          (let s' = (if raised then send ws (EvCommentary (Plain ''[commentary error]'')) s
                     else finishStream L ws aggregated s)
           in (nextAwait cfg (taskNow task) (taskRest task) s', s')))"

text \<open>
  The server with its suspended commentary tasks, numbered in the order the timer started
  them, and what can happen next: the timer fires at time \<open>t\<close>; the limiter answers a task at
  time \<open>t\<close>; the provider delivers a part to a task, ends its stream, or raises. An event for a
  task that is not waiting for it changes nothing.
\<close>

record async_server =
  core :: server
  tasks :: "nat \<Rightarrow> tick_task option"
  nextTask :: nat

datatype async_event =
    TickFires int
  | ConsumeSettles nat int gen_env
  | PartArrives nat "choice list option"
  | StreamEnds nat
  | StreamRaises nat

definition resume ::
  "nat \<Rightarrow> (tick_task \<Rightarrow> server \<Rightarrow> tick_task option \<times> server) \<Rightarrow> async_server \<Rightarrow> async_server" where
  "resume k continue a =
     (case tasks a k of
        None \<Rightarrow> a
      | Some task \<Rightarrow>
          (case continue task (core a) of
             (task', s') \<Rightarrow> a\<lparr>core := s', tasks := (tasks a)(k := task')\<rparr>))"

fun asyncStep :: "config \<Rightarrow> lib \<Rightarrow> async_event \<Rightarrow> async_server \<Rightarrow> async_server" where
  "asyncStep cfg L (TickFires t) a =
     (case nextAwait cfg t (clients (core a)) (core a) of
        None \<Rightarrow> a
      | Some task \<Rightarrow> a\<lparr>tasks := (tasks a)(nextTask a \<mapsto> task), nextTask := Suc (nextTask a)\<rparr>)"
| "asyncStep cfg L (ConsumeSettles k t env) a = resume k (afterConsume cfg L env t) a"
| "asyncStep cfg L (PartArrives k part) a = resume k (afterPart part) a"
| "asyncStep cfg L (StreamEnds k) a = resume k (afterStream cfg L False) a"
| "asyncStep cfg L (StreamRaises k) a = resume k (afterStream cfg L True) a"

fun asyncRun :: "config \<Rightarrow> lib \<Rightarrow> async_event list \<Rightarrow> async_server \<Rightarrow> async_server" where
  "asyncRun cfg L [] a = a"
| "asyncRun cfg L (e # es) a = asyncRun cfg L es (asyncStep cfg L e a)"

text \<open>
  No task is running.
\<close>

definition idle :: "server \<Rightarrow> async_server" where
  "idle s = \<lparr>core = s, tasks = (\<lambda>k. None), nextTask = 0\<rparr>"

section \<open>Example data\<close>

text \<open>
  The configuration \<^verbatim>\<open>server.js\<close> runs with when the environment sets nothing: its
  documented defaults, and simulated mode since no provider key is present.
\<close>

definition defaultConfig :: config where
  "defaultConfig = \<lparr>commentaryIntervalMs = 1200, coachIntervalMs = 10000,
     stateSendLimitPerSecond = 5, commentaryLimitPerMinute = 40, simulatedMode = True\<rparr>"

text \<open>The claims of the token the development endpoint mints.\<close>

definition devUser :: jsval where
  "devUser = JObj [(''sub'', JStr ''dev-user''), (''role'', JStr ''tester'')]"

text \<open>A complete game-state snapshot, with the given right-paddle speed.\<close>

definition snapshot :: "jsval \<Rightarrow> jsval" where
  "snapshot speed =
     JObj [(''ball'', JObj [(''x'', JNum 1), (''y'', JNum 2), (''vx'', JNum 3), (''vy'', JNum 4)]),
           (''leftPaddle'', JObj [(''y'', JNum 5)]),
           (''rightPaddle'', JObj [(''y'', JNum 6), (''speed'', speed)]),
           (''score'', JObj [(''player'', JNum 0), (''ai'', JNum 0)]),
           (''running'', JBool True)]"

text \<open>The JSON texts the examples send and generate.\<close>

abbreviation emptyStateText :: string where
  \<open>emptyStateText \<equiv> ''{"type":"state","state":{}}''\<close>

abbreviation completeStateText :: string where
  \<open>completeStateText \<equiv> ''{"type":"state","state":{"ball":{"x":1,"y":2,"vx":3,"vy":4},"leftPaddle":{"y":5},"rightPaddle":{"y":6,"speed":4},"score":{"player":0,"ai":0},"running":true}}''\<close>

abbreviation fastStateText :: string where
  \<open>fastStateText \<equiv> ''{"type":"state","state":{"ball":{"x":1,"y":2,"vx":3,"vy":4},"leftPaddle":{"y":5},"rightPaddle":{"y":6,"speed":"fast"},"score":{"player":0,"ai":0},"running":true}}''\<close>

abbreviation coachEnableText :: string where
  \<open>coachEnableText \<equiv> ''{"type":"coach_enable","enable":1}''\<close>

abbreviation nullSpeedText :: string where
  \<open>nullSpeedText \<equiv> ''{"type":"aiAdjust","aiSpeed":null}''\<close>

text \<open>
  Library stand-ins for the examples below: \<open>jsonParse\<close> agrees with \<^verbatim>\<open>JSON.parse\<close> on the
  JSON texts listed and on every text that is not JSON; \<open>jwtVerify\<close> accepts one token.
\<close>

definition exampleLib :: lib where
  \<open>exampleLib =
     \<lparr>jsonParse = (\<lambda>txt.
        if txt = emptyStateText
          then Some (JObj [(''type'', JStr ''state''), (''state'', JObj [])])
        else if txt = completeStateText
          then Some (JObj [(''type'', JStr ''state''), (''state'', snapshot (JNum 4))])
        else if txt = fastStateText
          then Some (JObj [(''type'', JStr ''state''), (''state'', snapshot (JStr ''fast''))])
        else if txt = coachEnableText
          then Some (JObj [(''type'', JStr ''coach_enable''), (''enable'', JNum 1)])
        else if txt = ''{"type":"aiAdjust","aiSpeed":5}''
          then Some (JObj [(''type'', JStr ''aiAdjust''), (''aiSpeed'', JNum 5)])
        else if txt = nullSpeedText
          then Some (JObj [(''type'', JStr ''aiAdjust''), (''aiSpeed'', JNull)])
        else None),
      msgpackDecode = (\<lambda>bytes. None),
      jwtVerify = (\<lambda>tok. if tok = ''good.jwt'' then Some devUser else None)\<rparr>\<close>

text \<open>A handshake offering \<^verbatim>\<open>['pong-proto.v1', <JWT>]\<close>, and the server once it is accepted.\<close>

definition exampleReq :: upgrade_req where
  "exampleReq = \<lparr>secWebSocketProtocol = Some ''pong-proto.v1, good.jwt'', queryToken = None\<rparr>"

definition connected :: server where
  "connected = snd (handleUpgrade exampleLib exampleReq initialServer)"

text \<open>Text frames carrying an empty state object, one at each of the given times.\<close>

definition stateFrames :: "int list \<Rightarrow> input list" where
  \<open>stateFrames ts = map (\<lambda>t. InMessage 0 t False emptyStateText) ts\<close>

text \<open>
  What a tick draws: \<open>proseEnv\<close> makes the simulated generator answer its first phrase
  and its first tip; \<open>directiveEnv txt\<close> makes it answer the directive text \<open>txt\<close>.
\<close>

definition proseEnv :: gen_env where
  "proseEnv = \<lparr>randPhrase = (\<lambda>w. 0), randDirective = (\<lambda>w. 1 / 2), directiveText = (\<lambda>w. []),
     providerStream = (\<lambda>w. \<lparr>streamParts = [], streamThrows = False\<rparr>),
     randTip = (\<lambda>w. 0), coachResponse = (\<lambda>w. CoachThrows)\<rparr>"

definition directiveEnv :: "string \<Rightarrow> gen_env" where
  "directiveEnv txt = proseEnv\<lparr>randDirective := (\<lambda>w. 0), directiveText := (\<lambda>w. txt)\<rparr>"

text \<open>A streamed part with one choice whose \<^verbatim>\<open>delta.content\<close> is the given text.\<close>

definition delta :: "string \<Rightarrow> choice list option" where
  "delta txt = Some [\<lparr>deltaContent = Some txt, deltaText = None, choiceText = None\<rparr>]"

text \<open>The accepted connection after a complete state frame.\<close>

definition playing :: server where
  \<open>playing =
     run defaultConfig exampleLib
       [InMessage 0 0 False completeStateText]
       connected\<close>

text \<open>
  The same under a commentary budget of one call per minute, with coaching switched on.
\<close>

definition coachingSession :: server where
  \<open>coachingSession =
     run (defaultConfig\<lparr>commentaryLimitPerMinute := 1\<rparr>) exampleLib
       [InMessage 0 0 False completeStateText,
        InMessage 0 1 False coachEnableText]
       connected\<close>

text \<open>
  The default configuration with a provider key; two accepted connections that have each
  sent a complete state; and two overlapping ticks, 1200 ms apart. The first tick's stream
  for connection 0 ends 2000 ms after the tick started, the second tick's 900 ms after.
\<close>

definition providerConfig :: config where
  "providerConfig = defaultConfig\<lparr>simulatedMode := False\<rparr>"

definition twoPlaying :: server where
  "twoPlaying =
     run defaultConfig exampleLib
       [InUpgrade exampleReq, InUpgrade exampleReq,
        InMessage 0 0 False completeStateText, InMessage 1 0 False completeStateText]
       initialServer"

definition slowStream :: "async_event list" where
  "slowStream =
     [TickFires 10000, ConsumeSettles 0 10000 proseEnv,
      TickFires 11200, ConsumeSettles 1 11200 proseEnv,
      PartArrives 0 (delta ''Nice block!''), StreamEnds 0, ConsumeSettles 0 12000 proseEnv,
      PartArrives 1 (delta ''Fast return!''), StreamEnds 1, ConsumeSettles 1 12100 proseEnv]"

section \<open>Properties of the per-message handler\<close>

lemma truthy_not_nullish: "truthy v \<Longrightarrow> \<not> nullish v"
  by (cases v) simp_all

lemma typeIs_eq: "typeIs data k = Inr (truthy data \<and> getField data ''type'' = JStr k)"
  by (cases data) (simp_all add: typeIs_def readProp_def bindE_def)

lemma readProp_truthy: "truthy v \<Longrightarrow> readProp v k = Inr (getField v k)"
  by (simp add: readProp_def truthy_not_nullish)

lemma handleMessage_decoded:
  "decodeFrame L isBinary msg = Some data \<Longrightarrow>
   handleMessage cfg L t ws u isBinary msg s =
     Inr (case frameCommand data of
            CmdState st \<Rightarrow> ingestState cfg t ws (userKey u) st s
          | CmdCoachEnable en \<Rightarrow> coachEnable ws en s
          | CmdPing \<Rightarrow> send ws (EvPong t) s
          | CmdUnrecognized \<Rightarrow> send ws (EvError ''unknown message type'') s)"
  by (cases data) (simp_all add: handleMessage_def typeIs_eq bindE_def readProp_def Let_def)

lemma errorOnly_send: "errorOnly ws m s (send ws (EvError m) s)"
  by (simp add: errorOnly_def send_def)

text \<open>
  Claim C5. The handler never raises. A frame that fails to decode, or that decodes to no
  command of the protocol, is answered by exactly one \<^verbatim>\<open>error\<close> event and changes nothing
  else; every other frame runs its command (state, coach_enable or ping).
\<close>

theorem handleMessage_total:
  "\<exists>s'. handleMessage cfg L t ws u isBinary msg s = Inr s' \<and>
     (case decodeFrame L isBinary msg of
        None \<Rightarrow> errorOnly ws ''invalid message'' s s'
      | Some data \<Rightarrow>
          (case frameCommand data of
             CmdState st \<Rightarrow> s' = ingestState cfg t ws (userKey u) st s
           | CmdCoachEnable en \<Rightarrow> s' = coachEnable ws en s
           | CmdPing \<Rightarrow> s' = send ws (EvPong t) s
           | CmdUnrecognized \<Rightarrow> errorOnly ws ''unknown message type'' s s'))"
proof (cases "decodeFrame L isBinary msg")
  case None
  then show ?thesis
    by (simp add: handleMessage_def errorOnly_send)
next
  case (Some data)
  then show ?thesis
    by (cases "frameCommand data") (simp_all add: handleMessage_decoded errorOnly_send)
qed

lemma ingestState_rejected:
  "\<not> fst (consume (stateLimiter cfg) key t (limiterStore s)) \<Longrightarrow>
   errorOnly ws ''state rate limit exceeded'' s (ingestState cfg t ws key st s)"
  by (auto simp: ingestState_def consume_def errorOnly_def send_def Let_def split: prod.splits if_splits)

lemma ingestState_admitted:
  "fst (consume (stateLimiter cfg) key t (limiterStore s)) \<Longrightarrow>
   metaByWs (ingestState cfg t ws key st s) = (metaByWs s)(ws \<mapsto> (metaOr s ws)\<lparr>lastState := st\<rparr>)
   \<and> sent (ingestState cfg t ws key st s) = sent s"
  by (auto simp: ingestState_def setMeta_def metaOr_def split: prod.splits)

text \<open>
  Claim C1 as written fails: the sixth state frame inside one second, under the default
  budget of five, is answered with an \<^verbatim>\<open>error\<close> event.
\<close>

theorem rejected_state_frame_counterexample:
  "sentTo 0 (run defaultConfig exampleLib (stateFrames [0, 100, 200, 300, 400, 500]) connected)
   = sentTo 0 (run defaultConfig exampleLib (stateFrames [0, 100, 200, 300, 400]) connected)
     @ [EvError ''state rate limit exceeded'']"
  by code_simp

text \<open>
  Claim C1, amended. A state frame that admission rejects leaves every session record as
  it was and sends the client exactly one \<^verbatim>\<open>error\<close> event; an admitted state frame
  overwrites \<^verbatim>\<open>lastState\<close> with its payload and sends nothing.
\<close>

theorem state_frame_admission:
  assumes "decodeFrame L isBinary msg = Some data" and "frameCommand data = CmdState st"
  shows "\<exists>s'. handleMessage cfg L t ws u isBinary msg s = Inr s' \<and>
           (if fst (consume (stateLimiter cfg) (userKey u) t (limiterStore s))
            then metaByWs s' = (metaByWs s)(ws \<mapsto> (metaOr s ws)\<lparr>lastState := st\<rparr>)
                 \<and> lastState (metaOr s' ws) = st \<and> sent s' = sent s
            else errorOnly ws ''state rate limit exceeded'' s s')"
proof -
  let ?s' = "ingestState cfg t ws (userKey u) st s"
  have run: "handleMessage cfg L t ws u isBinary msg s = Inr ?s'"
    using assms by (simp add: handleMessage_decoded)
  show ?thesis
  proof (cases "fst (consume (stateLimiter cfg) (userKey u) t (limiterStore s))")
    case True
    then show ?thesis
      using run ingestState_admitted [of cfg "userKey u" t s ws st]
      by (simp add: metaOr_def)
  next
    case False
    then show ?thesis
      using run ingestState_rejected [of cfg "userKey u" t s ws st] by simp
  qed
qed

lemma decode_state_text:
  \<open>decodeFrame exampleLib False emptyStateText
     = Some (JObj [(''type'', JStr ''state''), (''state'', JObj [])])\<close>
  by (simp add: decodeFrame_def exampleLib_def)

text \<open>
  The first state frame of a fresh connection is admitted.
\<close>

theorem state_frame_admission_witness:
  \<open>\<exists>s'. handleMessage defaultConfig exampleLib 0 0 devUser False
            emptyStateText connected = Inr s'
        \<and> lastState (metaOr s' 0) = JObj [] \<and> sent s' = sent connected\<close>
proof -
  have adm: "fst (consume (stateLimiter defaultConfig) (userKey devUser) 0 (limiterStore connected))"
    by code_simp
  show ?thesis
    using state_frame_admission [OF decode_state_text, of "JObj []" defaultConfig 0 0 devUser connected] adm
    by auto
qed

text \<open>
  A text frame that is not JSON.
\<close>

theorem handleMessage_total_witness:
  "\<exists>s'. handleMessage defaultConfig exampleLib 7 0 devUser False ''hello'' connected = Inr s'
        \<and> errorOnly 0 ''invalid message'' connected s'"
proof -
  have "decodeFrame exampleLib False ''hello'' = None"
    by (simp add: decodeFrame_def exampleLib_def)
  then show ?thesis
    using handleMessage_total [of defaultConfig exampleLib 7 0 devUser False "''hello''" connected]
    by simp
qed

lemma coachEnable_effect:
  "metaByWs (coachEnable ws en s)
     = (metaByWs s)(ws \<mapsto> (metaOr s ws)\<lparr>coachEnabled := Some (truthy en), lastCoachAt := Some 0\<rparr>)
   \<and> sent (coachEnable ws en s) = sent s @ [(ws, EvCoachStatus (truthy en))]
   \<and> limiterStore (coachEnable ws en s) = limiterStore s
   \<and> clients (coachEnable ws en s) = clients s
   \<and> calls (coachEnable ws en s) = calls s"
  by (simp add: coachEnable_def send_def setMeta_def Let_def)

text \<open>
  Claim C10. A \<^verbatim>\<open>coach_enable\<close> frame sets \<^verbatim>\<open>coachEnabled\<close> to the truthiness of its
  \<^verbatim>\<open>enable\<close> field, sets \<^verbatim>\<open>lastCoachAt\<close> to 0 (so the interval test of the coach
  scheduler compares the tick time itself with the interval), keeps \<^verbatim>\<open>lastState\<close> and
  \<^verbatim>\<open>lastCommentAt\<close>, and sends exactly one \<^verbatim>\<open>coach_status\<close> event with the coerced value.
\<close>

theorem coach_enable_frame:
  assumes "decodeFrame L isBinary msg = Some data" and "frameCommand data = CmdCoachEnable en"
  shows "\<exists>s'. handleMessage cfg L t ws u isBinary msg s = Inr s'
           \<and> coachEnabled (metaOr s' ws) = Some (truthy en)
           \<and> lastCoachAt (metaOr s' ws) = Some 0
           \<and> (now - orZero (lastCoachAt (metaOr s' ws)) < coachIntervalMs cfg)
               = (now < coachIntervalMs cfg)
           \<and> lastState (metaOr s' ws) = lastState (metaOr s ws)
           \<and> lastCommentAt (metaOr s' ws) = lastCommentAt (metaOr s ws)
           \<and> sent s' = sent s @ [(ws, EvCoachStatus (truthy en))]
           \<and> limiterStore s' = limiterStore s"
proof -
  have "handleMessage cfg L t ws u isBinary msg s = Inr (coachEnable ws en s)"
    using assms by (simp add: handleMessage_decoded)
  then show ?thesis
    using coachEnable_effect [of ws en s] by (simp add: metaOr_def)
qed

lemma decode_coach_text:
  \<open>decodeFrame exampleLib False coachEnableText
     = Some (JObj [(''type'', JStr ''coach_enable''), (''enable'', JNum 1)])\<close>
  by (simp add: decodeFrame_def exampleLib_def)

text \<open>
  Enabling with the truthy value 1.
\<close>

theorem coach_enable_frame_witness:
  \<open>\<exists>s'. handleMessage defaultConfig exampleLib 0 0 devUser False
            coachEnableText connected = Inr s'
        \<and> coachEnabled (metaOr s' 0) = Some True \<and> lastCoachAt (metaOr s' 0) = Some 0
        \<and> sent s' = sent connected @ [(0, EvCoachStatus True)]\<close>
  using coach_enable_frame [OF decode_coach_text, of "JNum 1" defaultConfig 0 0 devUser connected 0]
  by auto

section \<open>Properties of connection establishment\<close>

lemma parseProtocols_nonempty: "p \<in> set (parseProtocols req) \<Longrightarrow> p \<noteq> []"
  by (simp add: parseProtocols_def)

lemma findToken_eq:
  "findToken (parseProtocols req) req =
     (if 1 < length (parseProtocols req) then Some (parseProtocols req ! 1)
      else (case queryToken req of None \<Rightarrow> None | Some q \<Rightarrow> if q = [] then None else Some q))"
proof (cases "1 < length (parseProtocols req)")
  case True
  then have "parseProtocols req ! 1 \<in> set (parseProtocols req)" by simp
  then have "parseProtocols req ! 1 \<noteq> []" by (rule parseProtocols_nonempty)
  with True show ?thesis by (simp add: findToken_def)
next
  case False
  then show ?thesis by (simp add: findToken_def)
qed

lemma onConnection_effect:
  "metaByWs (onConnection u s) = (metaByWs s)(nextWs s \<mapsto> initialMeta)
   \<and> sent (onConnection u s) = sent s @ [(nextWs s, EvWelcome u)]
   \<and> clients (onConnection u s) = clients s @ [(nextWs s, \<lparr>user = u, readyOpen = True\<rparr>)]
   \<and> nextWs (onConnection u s) = Suc (nextWs s)
   \<and> limiterStore (onConnection u s) = limiterStore s
   \<and> calls (onConnection u s) = calls s"
  by (simp add: onConnection_def send_def setMeta_def Let_def)

text \<open>
  Claim C6. The upgrade is refused, with the server unchanged (no session record, nothing
  sent), when the first sub-protocol is not \<^verbatim>\<open>pong-proto.v1\<close>, when there is neither a second
  sub-protocol nor a non-empty \<^verbatim>\<open>token\<close> query parameter, and when the credential found
  does not verify. When it verifies, the connection is accepted, its session record is
  created and a \<^verbatim>\<open>welcome\<close> event carrying the decoded claims is sent. The credential is
  the second sub-protocol when there is one, the query parameter otherwise.
\<close>

theorem upgrade_authentication:
  "(parseProtocols req = [] \<or> hd (parseProtocols req) \<noteq> ''pong-proto.v1''
      \<longrightarrow> handleUpgrade L req s = (BadRequest400, s))
   \<and> (hd (parseProtocols req) = ''pong-proto.v1'' \<and> length (parseProtocols req) = 1
        \<and> (queryToken req = None \<or> queryToken req = Some [])
      \<longrightarrow> handleUpgrade L req s = (Unauthorized401, s))
   \<and> (parseProtocols req \<noteq> [] \<and> hd (parseProtocols req) = ''pong-proto.v1''
        \<and> findToken (parseProtocols req) req = Some tok \<and> jwtVerify L tok = None
      \<longrightarrow> handleUpgrade L req s = (Unauthorized401, s))
   \<and> (parseProtocols req \<noteq> [] \<and> hd (parseProtocols req) = ''pong-proto.v1''
        \<and> findToken (parseProtocols req) req = Some tok \<and> jwtVerify L tok = Some u
      \<longrightarrow> fst (handleUpgrade L req s) = Upgraded (nextWs s)
          \<and> metaByWs (snd (handleUpgrade L req s)) = (metaByWs s)(nextWs s \<mapsto> initialMeta)
          \<and> sent (snd (handleUpgrade L req s)) = sent s @ [(nextWs s, EvWelcome u)]
          \<and> clients (snd (handleUpgrade L req s))
              = clients s @ [(nextWs s, \<lparr>user = u, readyOpen = True\<rparr>)])
   \<and> findToken (parseProtocols req) req =
       (if 1 < length (parseProtocols req) then Some (parseProtocols req ! 1)
        else (case queryToken req of None \<Rightarrow> None | Some q \<Rightarrow> if q = [] then None else Some q))"
proof (intro conjI impI)
  assume "parseProtocols req = [] \<or> hd (parseProtocols req) \<noteq> ''pong-proto.v1''"
  then show "handleUpgrade L req s = (BadRequest400, s)"
    by (auto simp: handleUpgrade_def)
next
  assume a: "hd (parseProtocols req) = ''pong-proto.v1'' \<and> length (parseProtocols req) = 1
     \<and> (queryToken req = None \<or> queryToken req = Some [])"
  then have "findToken (parseProtocols req) req = None"
    by (auto simp: findToken_eq)
  moreover from a have "parseProtocols req \<noteq> []" by auto
  ultimately show "handleUpgrade L req s = (Unauthorized401, s)"
    using a by (simp add: handleUpgrade_def)
next
  assume "parseProtocols req \<noteq> [] \<and> hd (parseProtocols req) = ''pong-proto.v1''
     \<and> findToken (parseProtocols req) req = Some tok \<and> jwtVerify L tok = None"
  then show "handleUpgrade L req s = (Unauthorized401, s)"
    by (simp add: handleUpgrade_def)
next
  assume a: "parseProtocols req \<noteq> [] \<and> hd (parseProtocols req) = ''pong-proto.v1''
     \<and> findToken (parseProtocols req) req = Some tok \<and> jwtVerify L tok = Some u"
  then have run: "handleUpgrade L req s = (Upgraded (nextWs s), onConnection u s)"
    by (simp add: handleUpgrade_def)
  show "fst (handleUpgrade L req s) = Upgraded (nextWs s)" by (simp add: run)
  show "metaByWs (snd (handleUpgrade L req s)) = (metaByWs s)(nextWs s \<mapsto> initialMeta)"
    by (simp add: run onConnection_effect)
  show "sent (snd (handleUpgrade L req s)) = sent s @ [(nextWs s, EvWelcome u)]"
    by (simp add: run onConnection_effect)
  show "clients (snd (handleUpgrade L req s))
          = clients s @ [(nextWs s, \<lparr>user = u, readyOpen = True\<rparr>)]"
    by (simp add: run onConnection_effect)
next
  show "findToken (parseProtocols req) req =
       (if 1 < length (parseProtocols req) then Some (parseProtocols req ! 1)
        else (case queryToken req of None \<Rightarrow> None | Some q \<Rightarrow> if q = [] then None else Some q))"
    by (rule findToken_eq)
qed

lemma parseProtocols_exampleReq: "parseProtocols exampleReq = [''pong-proto.v1'', ''good.jwt'']"
  by (simp add: parseProtocols_def exampleReq_def trim_def isSpace_def)

text \<open>
  A valid handshake, a token that does not verify, no token, and a wrong sub-protocol.
\<close>

theorem upgrade_authentication_witness:
  "fst (handleUpgrade exampleLib exampleReq initialServer) = Upgraded 0
   \<and> sent (snd (handleUpgrade exampleLib exampleReq initialServer)) = [(0, EvWelcome devUser)]
   \<and> handleUpgrade exampleLib (exampleReq\<lparr>secWebSocketProtocol := Some ''pong-proto.v1, bad.jwt''\<rparr>)
        initialServer = (Unauthorized401, initialServer)
   \<and> handleUpgrade exampleLib (exampleReq\<lparr>secWebSocketProtocol := Some ''pong-proto.v1''\<rparr>)
        initialServer = (Unauthorized401, initialServer)
   \<and> handleUpgrade exampleLib (exampleReq\<lparr>secWebSocketProtocol := Some ''good.jwt''\<rparr>)
        initialServer = (BadRequest400, initialServer)"
proof -
  have ft: "findToken (parseProtocols exampleReq) exampleReq = Some ''good.jwt''"
    by (simp add: parseProtocols_exampleReq findToken_def)
  have ok: "jwtVerify exampleLib ''good.jwt'' = Some devUser"
    by (simp add: exampleLib_def)
  let ?bad = "exampleReq\<lparr>secWebSocketProtocol := Some ''pong-proto.v1, bad.jwt''\<rparr>"
  have ppb: "parseProtocols ?bad = [''pong-proto.v1'', ''bad.jwt'']"
    by (simp add: parseProtocols_def exampleReq_def trim_def isSpace_def)
  have ftb: "findToken (parseProtocols ?bad) ?bad = Some ''bad.jwt''"
    by (simp add: ppb findToken_def)
  have nok: "jwtVerify exampleLib ''bad.jwt'' = None"
    by (simp add: exampleLib_def)
  let ?none = "exampleReq\<lparr>secWebSocketProtocol := Some ''pong-proto.v1''\<rparr>"
  have ppn: "parseProtocols ?none = [''pong-proto.v1'']"
    by (simp add: parseProtocols_def exampleReq_def trim_def isSpace_def)
  have qn: "queryToken ?none = None" by (simp add: exampleReq_def)
  let ?wrong = "exampleReq\<lparr>secWebSocketProtocol := Some ''good.jwt''\<rparr>"
  have ppw: "parseProtocols ?wrong = [''good.jwt'']"
    by (simp add: parseProtocols_def exampleReq_def trim_def isSpace_def)
  show ?thesis
    using upgrade_authentication [of exampleReq exampleLib initialServer "''good.jwt''" devUser]
      upgrade_authentication [of ?bad exampleLib initialServer "''bad.jwt''" devUser]
      upgrade_authentication [of ?none exampleLib initialServer "''x''" devUser]
      upgrade_authentication [of ?wrong exampleLib initialServer "''x''" devUser]
    by (simp add: parseProtocols_exampleReq ft ok ppb ftb nok ppn qn ppw initialServer_def)
qed

section \<open>Properties of text generation and routing\<close>

text \<open>
  Claim C3 fails on the simulated branch, which does not test the type of \<^verbatim>\<open>aiSpeed\<close>.
  A client reports the right-paddle speed \<^verbatim>\<open>"fast"\<close>; the simulated generator draws the
  directive branch, where the speed it computes is NaN and \<^verbatim>\<open>JSON.stringify\<close> writes it
  as \<^verbatim>\<open>null\<close>. The tick sends a \<^verbatim>\<open>control\<close> event whose speed is null, and its
  confirmation, where the claim has plain commentary and no \<^verbatim>\<open>control\<close> event.
\<close>

theorem simulated_null_speed_directive:
  \<open>sentTo 0 (run defaultConfig exampleLib
     [InMessage 0 0 False fastStateText,
      InCommentaryTick 5000 (directiveEnv nullSpeedText)] connected)
   = [EvWelcome devUser, EvControl (JObj [(''type'', JStr ''aiAdjust''), (''aiSpeed'', JNull)]),
      EvCommentary (AiSpeedSet JNull)]\<close>
  by code_simp

lemma sent_send [simp]: "sent (send ws ev s) = sent s @ [(ws, ev)]"
  by (simp add: send_def)

lemma sentTo_append:
  "sent s' = sent s @ map (Pair ws) evs \<Longrightarrow> sentTo ws s' = sentTo ws s @ evs"
  by (simp add: sentTo_def filter_map comp_def)

lemma forwardChoices_eq:
  "forwardChoices ws chs acc =
     (fst acc @ concat (filter (\<lambda>c. c \<noteq> []) (map textChunk chs)),
      (snd acc)\<lparr>sent := sent (snd acc)
         @ map (\<lambda>c. (ws, EvCommentaryChunk c)) (filter (\<lambda>c. c \<noteq> []) (map textChunk chs))\<rparr>)"
  by (induction chs arbitrary: acc) (simp_all add: send_def)

lemma forwardParts_eq:
  "forwardParts ws ps acc =
     (fst acc @ concat (streamChunks ps),
      (snd acc)\<lparr>sent := sent (snd acc)
         @ map (\<lambda>c. (ws, EvCommentaryChunk c)) (streamChunks ps)\<rparr>)"
  by (induction ps arbitrary: acc) (simp_all add: forwardChoices_eq streamChunks_def)

lemma finishStream_sent:
  "sent (finishStream L ws agg s) = sent s @ map (Pair ws)
     (case jsonParse L (trim agg) of
        None \<Rightarrow> [EvCommentary (Plain (trim agg))]
      | Some parsed \<Rightarrow>
          if isSpeedDirective parsed
          then [EvControl parsed, EvCommentary (AiSpeedSet (getField parsed ''aiSpeed''))]
          else [EvCommentary (Plain (trim agg))])"
  by (simp add: finishStream_def Let_def split: option.splits)

text \<open>
  Claim C8, amended. When the stream ends without raising, the client receives one
  \<^verbatim>\<open>commentary_chunk\<close> event for each non-empty chunk, in order; then, if the trimmed
  concatenation parses as an \<^verbatim>\<open>aiAdjust\<close> object with a numeric \<^verbatim>\<open>aiSpeed\<close>, a
  \<^verbatim>\<open>control\<close> event and its confirmation; otherwise exactly one \<^verbatim>\<open>commentary\<close> event
  whose text is the trimmed concatenation.
\<close>

theorem stream_events:
  assumes "\<not> streamThrows strm"
  shows "sentTo ws (streamCommentary L ws strm s) =
           sentTo ws s @ map EvCommentaryChunk (streamChunks (streamParts strm)) @
           (case jsonParse L (trim (concat (streamChunks (streamParts strm)))) of
              None \<Rightarrow> [EvCommentary (Plain (trim (concat (streamChunks (streamParts strm)))))]
            | Some parsed \<Rightarrow>
                if isSpeedDirective parsed
                then [EvControl parsed, EvCommentary (AiSpeedSet (getField parsed ''aiSpeed''))]
                else [EvCommentary (Plain (trim (concat (streamChunks (streamParts strm)))))])"
proof -
  let ?chunks = "streamChunks (streamParts strm)"
  let ?tail = "case jsonParse L (trim (concat ?chunks)) of
        None \<Rightarrow> [EvCommentary (Plain (trim (concat ?chunks)))]
      | Some parsed \<Rightarrow>
          if isSpeedDirective parsed
          then [EvControl parsed, EvCommentary (AiSpeedSet (getField parsed ''aiSpeed''))]
          else [EvCommentary (Plain (trim (concat ?chunks)))]"
  have "sent (streamCommentary L ws strm s)
          = sent s @ map (Pair ws) (map EvCommentaryChunk ?chunks @ ?tail)"
    using assms
    by (simp add: streamCommentary_def forwardParts_eq finishStream_sent comp_def)
  then show ?thesis
    by (rule sentTo_append)
qed

text \<open>
  The chunks "Nice", " shot", "!".
\<close>

theorem stream_events_witness:
  "sentTo 0 (streamCommentary exampleLib 0
       \<lparr>streamParts = [delta ''Nice'', delta '' shot'', delta ''!''], streamThrows = False\<rparr>
       connected)
   = [EvWelcome devUser, EvCommentaryChunk ''Nice'', EvCommentaryChunk '' shot'',
      EvCommentaryChunk ''!'', EvCommentary (Plain ''Nice shot!'')]"
proof -
  let ?strm = "\<lparr>streamParts = [delta ''Nice'', delta '' shot'', delta ''!''], streamThrows = False\<rparr>"
  have c: "streamChunks [delta ''Nice'', delta '' shot'', delta ''!''] = [''Nice'', '' shot'', ''!'']"
    by (simp add: streamChunks_def delta_def textChunk_def orStr_def)
  have t: "trim ''Nice shot!'' = ''Nice shot!''"
    by (simp add: trim_def isSpace_def)
  have p: "jsonParse exampleLib ''Nice shot!'' = None"
    by (simp add: exampleLib_def)
  have w: "sentTo 0 connected = [EvWelcome devUser]"
    by code_simp
  show ?thesis
    using stream_events [of ?strm 0 exampleLib connected]
    by (simp add: c t p w)
qed

text \<open>
  Claim C8 as written fails: a directive streamed in two chunks ends with a \<^verbatim>\<open>control\<close>
  event and a confirmation, not with a \<^verbatim>\<open>commentary\<close> event carrying the concatenation.
\<close>

theorem stream_directive_counterexample:
  \<open>sentTo 0 (streamCommentary exampleLib 0
       \<lparr>streamParts = [delta ''{"type":"aiAdjust",'', delta ''"aiSpeed":5} ''],
        streamThrows = False\<rparr> connected)
   = [EvWelcome devUser, EvCommentaryChunk ''{"type":"aiAdjust",'',
      EvCommentaryChunk ''"aiSpeed":5} '',
      EvControl (JObj [(''type'', JStr ''aiAdjust''), (''aiSpeed'', JNum 5)]),
      EvCommentary (AiSpeedSet (JNum 5))]\<close>
  by code_simp

text \<open>
  Claim C2 fails: prompt construction reads \<^verbatim>\<open>s.ball.x\<close> with no guard. Connection 0
  reports the state \<^verbatim>\<open>{}\<close>, connection 1 a complete one. The commentary tick raises a
  TypeError at connection 0 and never reaches connection 1, which gets its commentary at
  the same tick when connection 0 has sent nothing. The coach tick raises in the same way.
  Missing numbers alone are tolerated: with the four objects present and empty, the prompt
  is built from undefined values.
\<close>

theorem malformed_snapshot_aborts_tick:
  \<open>fst (commentaryTick defaultConfig exampleLib proseEnv 5000
          (run defaultConfig exampleLib
             [InUpgrade exampleReq, InUpgrade exampleReq,
              InMessage 0 0 False emptyStateText,
              InMessage 1 0 False completeStateText]
             initialServer)) = Some TypeError
   \<and> sentTo 1 (run defaultConfig exampleLib
             [InUpgrade exampleReq, InUpgrade exampleReq,
              InMessage 0 0 False emptyStateText,
              InMessage 1 0 False completeStateText,
              InCommentaryTick 5000 proseEnv]
             initialServer) = [EvWelcome devUser]
   \<and> sentTo 1 (run defaultConfig exampleLib
             [InUpgrade exampleReq, InUpgrade exampleReq,
              InMessage 1 0 False completeStateText,
              InCommentaryTick 5000 proseEnv]
             initialServer) = [EvWelcome devUser, EvCommentary (Plain ''Nice block!'')]
   \<and> fst (coachTick defaultConfig proseEnv 20000
          (run defaultConfig exampleLib
             [InMessage 0 0 False emptyStateText, InMessage 0 1 False coachEnableText]
             connected)) = Some TypeError
   \<and> userPrompt (JObj [(''ball'', JObj []), (''leftPaddle'', JObj []),
                        (''rightPaddle'', JObj []), (''score'', JObj [])])
       = Inr (replicate 10 JUndefined)\<close>
  by code_simp

section \<open>Properties of the schedulers\<close>

lemma send_fields:
  "metaByWs (send ws ev s) = metaByWs s" "limiterStore (send ws ev s) = limiterStore s"
  "clients (send ws ev s) = clients s" "calls (send ws ev s) = calls s"
  "nextWs (send ws ev s) = nextWs s"
  by (simp_all add: send_def)

lemma setMeta_fields:
  "metaByWs (setMeta ws m s) = (metaByWs s)(ws \<mapsto> m)" "limiterStore (setMeta ws m s) = limiterStore s"
  "clients (setMeta ws m s) = clients s" "calls (setMeta ws m s) = calls s"
  "nextWs (setMeta ws m s) = nextWs s" "sent (setMeta ws m s) = sent s"
  by (simp_all add: setMeta_def)

lemma routeSimulated_frame:
  "\<exists>evs. routeSimulated L ws out s = s\<lparr>sent := sent s @ map (Pair ws) evs\<rparr>"
proof (cases "jsonParse L out")
  case None
  then have "routeSimulated L ws out s = s\<lparr>sent := sent s @ map (Pair ws) [EvCommentary (Plain out)]\<rparr>"
    by (simp add: routeSimulated_def send_def)
  then show ?thesis by blast
next
  case (Some parsed)
  show ?thesis
  proof (cases "truthy parsed \<and> getField parsed ''type'' = JStr ''aiAdjust''")
    case False
    with Some have "routeSimulated L ws out s
        = s\<lparr>sent := sent s @ map (Pair ws) [EvCommentary (Plain out)]\<rparr>"
      by (auto simp: routeSimulated_def send_def)
    then show ?thesis by blast
  next
    case True
    with Some have "routeSimulated L ws out s
        = s\<lparr>sent := sent s @ map (Pair ws)
             [EvControl parsed,
              if coercible (getField parsed ''aiSpeed'')
              then EvCommentary (AiSpeedSet (getField parsed ''aiSpeed''))
              else EvCommentary (Plain out)]\<rparr>"
      by (simp add: routeSimulated_def send_def Let_def)
    then show ?thesis by blast
  qed
qed

lemma streamCommentary_frame:
  "\<exists>evs. streamCommentary L ws strm s = s\<lparr>sent := sent s @ map (Pair ws) evs\<rparr>"
proof (cases "streamThrows strm")
  case True
  then have "streamCommentary L ws strm s = s\<lparr>sent := sent s @ map (Pair ws)
      (map EvCommentaryChunk (streamChunks (streamParts strm))
        @ [EvCommentary (Plain ''[commentary error]'')])\<rparr>"
    by (simp add: streamCommentary_def forwardParts_eq send_def comp_def)
  then show ?thesis by blast
next
  case False
  show ?thesis
  proof (cases "jsonParse L (trim (concat (streamChunks (streamParts strm))))")
    case None
    with False have "streamCommentary L ws strm s = s\<lparr>sent := sent s @ map (Pair ws)
      (map EvCommentaryChunk (streamChunks (streamParts strm))
        @ [EvCommentary (Plain (trim (concat (streamChunks (streamParts strm)))))])\<rparr>"
      by (simp add: streamCommentary_def forwardParts_eq finishStream_def send_def comp_def)
    then show ?thesis by blast
  next
    case (Some parsed)
    with False have "streamCommentary L ws strm s = s\<lparr>sent := sent s @ map (Pair ws)
      (map EvCommentaryChunk (streamChunks (streamParts strm))
        @ (if isSpeedDirective parsed
           then [EvControl parsed, EvCommentary (AiSpeedSet (getField parsed ''aiSpeed''))]
           else [EvCommentary (Plain (trim (concat (streamChunks (streamParts strm)))))]))\<rparr>"
      by (simp add: streamCommentary_def forwardParts_eq finishStream_def send_def comp_def)
    then show ?thesis by blast
  qed
qed

text \<open>What a loop body may do to the server: only to the connection it runs on.\<close>

lemma commentarySession_skip:
  "\<not> readyOpen c \<or> metaByWs s ws = None
     \<or> (\<exists>m. metaByWs s ws = Some m \<and> (\<not> truthy (lastState m)
           \<or> now - orZero (lastCommentAt m) < commentaryIntervalMs cfg))
   \<Longrightarrow> commentarySession cfg L env now (ws, c) s = (None, s)"
  by (auto simp: commentarySession_def)

lemma commentarySession_pass:
  assumes "readyOpen c" and "metaByWs s ws = Some m" and "truthy (lastState m)"
    and "commentaryIntervalMs cfg \<le> now - orZero (lastCommentAt m)"
  shows "\<exists>evs cs.
           metaByWs (snd (commentarySession cfg L env now (ws, c) s))
             = (metaByWs s)(ws \<mapsto> m\<lparr>lastCommentAt := Some now\<rparr>)
           \<and> limiterStore (snd (commentarySession cfg L env now (ws, c) s))
             = snd (consume (commentaryLimiter cfg) (userKey (user c)) now (limiterStore s))
           \<and> sent (snd (commentarySession cfg L env now (ws, c) s)) = sent s @ map (Pair ws) evs
           \<and> calls (snd (commentarySession cfg L env now (ws, c) s)) = calls s @ cs
           \<and> clients (snd (commentarySession cfg L env now (ws, c) s)) = clients s
           \<and> nextWs (snd (commentarySession cfg L env now (ws, c) s)) = nextWs s
           \<and> (cs = [] \<or> cs = [CommentaryCall ws now])
           \<and> (\<not> fst (consume (commentaryLimiter cfg) (userKey (user c)) now (limiterStore s))
                \<longrightarrow> evs = [EvCommentary (Plain ''[commentary rate-limited]'')] \<and> cs = [])"
proof -
  obtain ok store' where c: "consume (commentaryLimiter cfg) (userKey (user c)) now (limiterStore s) = (ok, store')"
    by (cases "consume (commentaryLimiter cfg) (userKey (user c)) now (limiterStore s)")
  let ?s1 = "setMeta ws (m\<lparr>lastCommentAt := Some now\<rparr>) (s\<lparr>limiterStore := store'\<rparr>)"
  let ?R = "snd (commentarySession cfg L env now (ws, c) s)"
  show ?thesis
  proof (cases ok)
    case False
    with assms c have "?R = setMeta ws (m\<lparr>lastCommentAt := Some now\<rparr>)
        (send ws (EvCommentary (Plain ''[commentary rate-limited]'')) (s\<lparr>limiterStore := store'\<rparr>))"
      by (simp add: commentarySession_def)
    with c False show ?thesis
      by (intro exI [of _ "[EvCommentary (Plain ''[commentary rate-limited]'')]"] exI [of _ "[]"])
         (simp add: setMeta_def send_def)
  next
    case True
    note ok = True
    show ?thesis
    proof (cases "userPrompt (lastState m)")
      case (Inl e)
      with assms c ok have "?R = ?s1"
        by (simp add: commentarySession_def)
      with c ok show ?thesis
        by (intro exI [of _ "[]"]) (simp add: setMeta_def)
    next
      case (Inr prompt)
      let ?s2 = "?s1\<lparr>calls := calls ?s1 @ [CommentaryCall ws now]\<rparr>"
      have "\<exists>evs. ?R = ?s2\<lparr>sent := sent ?s2 @ map (Pair ws) evs\<rparr>"
      proof (cases "simulatedMode cfg")
        case True
        with assms c ok Inr have "?R =
            routeSimulated L ws (generateSimulatedCommentary (randPhrase env ws)
                                       (randDirective env ws) (directiveText env ws)) ?s2"
          by (simp add: commentarySession_def Let_def)
        then show ?thesis using routeSimulated_frame [of L ws _ ?s2] by simp
      next
        case False
        with assms c ok Inr have "?R = streamCommentary L ws (providerStream env ws) ?s2"
          by (simp add: commentarySession_def Let_def)
        then show ?thesis using streamCommentary_frame [of L ws _ ?s2] by simp
      qed
      then obtain evs where "?R = ?s2\<lparr>sent := sent ?s2 @ map (Pair ws) evs\<rparr>" ..
      with c ok show ?thesis
        by (intro exI [of _ evs] exI [of _ "[CommentaryCall ws now]"]) (simp add: setMeta_def)
    qed
  qed
qed

lemma coachSession_skip:
  "\<not> readyOpen c \<or> coachEnabled (metaOr s ws) \<noteq> Some True \<or> \<not> truthy (lastState (metaOr s ws))
     \<or> now - orZero (lastCoachAt (metaOr s ws)) < coachIntervalMs cfg
   \<Longrightarrow> coachSession cfg env now (ws, c) s = (None, s)"
  by (auto simp: coachSession_def metaOr_def emptyMeta_def split: option.splits)

lemma coachSession_pass:
  assumes "readyOpen c" and "metaByWs s ws = Some m" and "truthy (lastState m)"
    and "coachEnabled m = Some True"
    and "coachIntervalMs cfg \<le> now - orZero (lastCoachAt m)"
  shows "\<exists>evs cs.
           metaByWs (snd (coachSession cfg env now (ws, c) s))
             = (metaByWs s)(ws \<mapsto> m\<lparr>lastCoachAt := Some now\<rparr>)
           \<and> limiterStore (snd (coachSession cfg env now (ws, c) s))
             = snd (consume (commentaryLimiter cfg) (userKey (user c)) now (limiterStore s))
           \<and> sent (snd (coachSession cfg env now (ws, c) s)) = sent s @ map (Pair ws) evs
           \<and> calls (snd (coachSession cfg env now (ws, c) s)) = calls s @ cs
           \<and> clients (snd (coachSession cfg env now (ws, c) s)) = clients s
           \<and> nextWs (snd (coachSession cfg env now (ws, c) s)) = nextWs s
           \<and> (cs = [] \<or> cs = [CoachCall ws now])
           \<and> (\<not> fst (consume (commentaryLimiter cfg) (userKey (user c)) now (limiterStore s))
                \<longrightarrow> evs = [EvCoach ''[coach rate-limited]''] \<and> cs = [])"
proof -
  obtain ok store' where c: "consume (commentaryLimiter cfg) (userKey (user c)) now (limiterStore s) = (ok, store')"
    by (cases "consume (commentaryLimiter cfg) (userKey (user c)) now (limiterStore s)")
  let ?s1 = "setMeta ws (m\<lparr>lastCoachAt := Some now\<rparr>) (s\<lparr>limiterStore := store'\<rparr>)"
  let ?R = "snd (coachSession cfg env now (ws, c) s)"
  show ?thesis
  proof (cases ok)
    case False
    with assms c have "?R = setMeta ws (m\<lparr>lastCoachAt := Some now\<rparr>)
        (send ws (EvCoach ''[coach rate-limited]'') (s\<lparr>limiterStore := store'\<rparr>))"
      by (simp add: coachSession_def)
    with c False show ?thesis
      by (intro exI [of _ "[EvCoach ''[coach rate-limited]'']"] exI [of _ "[]"])
         (simp add: setMeta_def send_def)
  next
    case True
    note ok = True
    show ?thesis
    proof (cases "userPrompt (lastState m)")
      case (Inl e)
      with assms c ok have "?R = ?s1"
        by (simp add: coachSession_def)
      with c ok show ?thesis
        by (intro exI [of _ "[]"]) (simp add: setMeta_def)
    next
      case (Inr prompt)
      let ?s2 = "?s1\<lparr>calls := calls ?s1 @ [CoachCall ws now]\<rparr>"
      let ?ev = "if simulatedMode cfg then EvCoach (generateSimulatedCoachTip (randTip env ws))
                 else (case coachResponse env ws of
                         CoachThrows \<Rightarrow> EvCoach ''[coach error]''
                       | CoachResponse chs \<Rightarrow> EvCoach (trim (coachText chs)))"
      from assms c ok Inr have "?R = send ws ?ev ?s2"
        by (simp add: coachSession_def Let_def split: coach_response.splits)
      with c ok show ?thesis
        by (intro exI [of _ "[?ev]"] exI [of _ "[CoachCall ws now]"]) (simp add: setMeta_def send_def)
    qed
  qed
qed

lemma sentTo_other:
  "sent s' = sent s @ map (Pair w) evs \<Longrightarrow> ws \<noteq> w \<Longrightarrow> sentTo ws s' = sentTo ws s"
  by (simp add: sentTo_def filter_map comp_def)

lemma coachSession_other:
  assumes "ws \<noteq> w"
  shows "metaByWs (snd (coachSession cfg env now (w, c) s)) ws = metaByWs s ws
         \<and> sentTo ws (snd (coachSession cfg env now (w, c) s)) = sentTo ws s"
proof (cases "readyOpen c \<and> coachEnabled (metaOr s w) = Some True \<and> truthy (lastState (metaOr s w))
     \<and> coachIntervalMs cfg \<le> now - orZero (lastCoachAt (metaOr s w))")
  case False
  then have "coachSession cfg env now (w, c) s = (None, s)"
    by (intro coachSession_skip) auto
  then show ?thesis by simp
next
  case True
  then obtain m where m: "metaByWs s w = Some m"
    by (cases "metaByWs s w") (auto simp: metaOr_def emptyMeta_def)
  with True have "readyOpen c" "truthy (lastState m)" "coachEnabled m = Some True"
    "coachIntervalMs cfg \<le> now - orZero (lastCoachAt m)"
    by (simp_all add: metaOr_def)
  from coachSession_pass [OF this(1) m this(2,3,4), of env]
  obtain evs where
    "metaByWs (snd (coachSession cfg env now (w, c) s)) = (metaByWs s)(w \<mapsto> m\<lparr>lastCoachAt := Some now\<rparr>)"
    "sent (snd (coachSession cfg env now (w, c) s)) = sent s @ map (Pair w) evs"
    by blast
  with assms show ?thesis
    by (simp add: sentTo_other)
qed

lemma coach_loop_silent:
  "coachEnabled (metaOr s ws) \<noteq> Some True \<or> \<not> truthy (lastState (metaOr s ws)) \<Longrightarrow>
   sentTo ws (snd (tickLoop (coachSession cfg env now) cl s)) = sentTo ws s
   \<and> metaByWs (snd (tickLoop (coachSession cfg env now) cl s)) ws = metaByWs s ws"
proof (induction cl arbitrary: s)
  case Nil
  then show ?case by simp
next
  case (Cons wc cl)
  obtain w c where wc: "wc = (w, c)" by (cases wc)
  obtain r s' where b: "coachSession cfg env now (w, c) s = (r, s')"
    by (cases "coachSession cfg env now (w, c) s")
  have keep: "sentTo ws s' = sentTo ws s \<and> metaByWs s' ws = metaByWs s ws"
  proof (cases "w = ws")
    case True
    with Cons.prems have "coachSession cfg env now (w, c) s = (None, s)"
      by (intro coachSession_skip) auto
    with b show ?thesis by simp
  next
    case False
    then show ?thesis
      using coachSession_other [of ws w cfg env now c s] b by simp
  qed
  then have H: "coachEnabled (metaOr s' ws) \<noteq> Some True \<or> \<not> truthy (lastState (metaOr s' ws))"
    using Cons.prems by (simp add: metaOr_def)
  show ?case
  proof (cases r)
    case None
    with b wc keep Cons.IH [OF H] show ?thesis by simp
  next
    case (Some e)
    with b wc keep show ?thesis by simp
  qed
qed

text \<open>
  Claim C7. For a connection whose \<^verbatim>\<open>coachEnabled\<close> is not true, or whose
  \<^verbatim>\<open>lastState\<close> is falsy (no state was ever received), the loop body of the coach
  scheduler leaves the whole server as it is, the admission store included, whatever the
  tick time; and a whole coach tick sends that connection nothing and keeps its record.
\<close>

theorem coach_disabled_silent:
  assumes "coachEnabled (metaOr s ws) \<noteq> Some True \<or> \<not> truthy (lastState (metaOr s ws))"
  shows "coachSession cfg env now (ws, c) s = (None, s)
         \<and> sentTo ws (snd (coachTick cfg env now s)) = sentTo ws s
         \<and> metaByWs (snd (coachTick cfg env now s)) ws = metaByWs s ws"
proof -
  have "coachSession cfg env now (ws, c) s = (None, s)"
    using assms by (intro coachSession_skip) auto
  then show ?thesis
    using coach_loop_silent [OF assms, of cfg env now "clients s"]
    by (simp add: coachTick_def)
qed

text \<open>
  A connection that has reported its state and never enabled coaching.
\<close>

theorem coach_disabled_silent_witness:
  \<open>sentTo 0 (snd (coachTick defaultConfig proseEnv 99999
      playing))
   = [EvWelcome devUser]
   \<and> limiterStore (snd (coachSession defaultConfig proseEnv 99999 (0, \<lparr>user = devUser, readyOpen = True\<rparr>)
      playing))
       (''rl_commentary'', JStr ''dev-user'') = None\<close>
proof -
  have h: "coachEnabled (metaOr playing 0) \<noteq> Some True"
    by code_simp
  have a: "sentTo 0 playing = [EvWelcome devUser]"
    by code_simp
  have b: "limiterStore playing (''rl_commentary'', JStr ''dev-user'') = None"
    by code_simp
  show ?thesis
    using coach_disabled_silent [of playing 0 defaultConfig proseEnv 99999 "\<lparr>user = devUser, readyOpen = True\<rparr>"] h a b
    by simp
qed

subsection \<open>The shared commentary budget\<close>

lemma consume_admits: "fst (consume l k t st) = (0 < remaining l k t st)"
  by (simp add: consume_def remaining_def Let_def)

lemma currentBucket_live: "0 < duration l \<Longrightarrow> t < expiresAt (currentBucket l k t st)"
  by (simp add: currentBucket_def split: option.splits)

lemma remaining_after_consume:
  assumes "0 < duration l" and "0 < remaining l k t st"
  shows "remaining l k t (snd (consume l k t st)) = remaining l k t st - 1"
proof -
  let ?b = "currentBucket l k t st"
  from assms(2) have "snd (consume l k t st)
      = st((keyPrefix l, k) \<mapsto> ?b\<lparr>consumedPoints := consumedPoints ?b + 1\<rparr>)"
    by (simp add: consume_def remaining_def Let_def)
  moreover have "t < expiresAt ?b"
    using assms(1) by (rule currentBucket_live)
  ultimately have "currentBucket l k t (snd (consume l k t st))
      = ?b\<lparr>consumedPoints := consumedPoints ?b + 1\<rparr>"
    by (simp add: currentBucket_def)
  then show ?thesis
    by (simp add: remaining_def)
qed

lemma remaining_rejected:
  "\<not> 0 < remaining l k t st \<Longrightarrow> snd (consume l k t st) = st"
  by (simp add: consume_def remaining_def Let_def)

lemma remaining_other_prefix:
  "keyPrefix l' \<noteq> keyPrefix l \<Longrightarrow>
   remaining l' k' t' (snd (consume l k t st)) = remaining l' k' t' st"
  by (simp add: consume_def remaining_def currentBucket_def Let_def)

lemma limiter_prefixes: "keyPrefix (stateLimiter cfg) \<noteq> keyPrefix (commentaryLimiter cfg)"
  by (simp add: stateLimiter_def commentaryLimiter_def)

lemma commentaryLimiter_duration: "0 < duration (commentaryLimiter cfg)"
  by (simp add: commentaryLimiter_def)

text \<open>
  Claim C9. Both schedulers consume from \<^verbatim>\<open>commentaryLimiter\<close> under the key
  \<^verbatim>\<open>ws.user?.sub || 'anon'\<close>: for a connection that passes a scheduler's gates while its
  user has budget left, the loop body of the coach scheduler and that of the commentary
  scheduler each lower by one the points that user may still consume from the commentary
  limiter, and neither touches the budget of the state limiter.
\<close>

theorem shared_commentary_budget:
  assumes "metaByWs s ws = Some m" and "readyOpen c" and "truthy (lastState m)"
    and "0 < remaining (commentaryLimiter cfg) (userKey (user c)) now (limiterStore s)"
  shows "(coachEnabled m = Some True \<and> coachIntervalMs cfg \<le> now - orZero (lastCoachAt m) \<longrightarrow>
            remaining (commentaryLimiter cfg) (userKey (user c)) now
              (limiterStore (snd (coachSession cfg env now (ws, c) s)))
            = remaining (commentaryLimiter cfg) (userKey (user c)) now (limiterStore s) - 1
          \<and> remaining (stateLimiter cfg) k t (limiterStore (snd (coachSession cfg env now (ws, c) s)))
            = remaining (stateLimiter cfg) k t (limiterStore s))
       \<and> (commentaryIntervalMs cfg \<le> now - orZero (lastCommentAt m) \<longrightarrow>
            remaining (commentaryLimiter cfg) (userKey (user c)) now
              (limiterStore (snd (commentarySession cfg L env now (ws, c) s)))
            = remaining (commentaryLimiter cfg) (userKey (user c)) now (limiterStore s) - 1
          \<and> remaining (stateLimiter cfg) k t
              (limiterStore (snd (commentarySession cfg L env now (ws, c) s)))
            = remaining (stateLimiter cfg) k t (limiterStore s))"
proof (intro conjI impI)
  assume g: "coachEnabled m = Some True \<and> coachIntervalMs cfg \<le> now - orZero (lastCoachAt m)"
  from coachSession_pass [OF assms(2) assms(1) assms(3), of cfg now env] g
  have st: "limiterStore (snd (coachSession cfg env now (ws, c) s))
      = snd (consume (commentaryLimiter cfg) (userKey (user c)) now (limiterStore s))"
    by blast
  show "remaining (commentaryLimiter cfg) (userKey (user c)) now
          (limiterStore (snd (coachSession cfg env now (ws, c) s)))
        = remaining (commentaryLimiter cfg) (userKey (user c)) now (limiterStore s) - 1"
    using assms(4) by (simp add: st remaining_after_consume commentaryLimiter_duration)
  show "remaining (stateLimiter cfg) k t (limiterStore (snd (coachSession cfg env now (ws, c) s)))
        = remaining (stateLimiter cfg) k t (limiterStore s)"
    by (simp add: st remaining_other_prefix limiter_prefixes)
next
  assume g: "commentaryIntervalMs cfg \<le> now - orZero (lastCommentAt m)"
  from commentarySession_pass [OF assms(2) assms(1) assms(3) g, of L env]
  have st: "limiterStore (snd (commentarySession cfg L env now (ws, c) s))
      = snd (consume (commentaryLimiter cfg) (userKey (user c)) now (limiterStore s))"
    by blast
  show "remaining (commentaryLimiter cfg) (userKey (user c)) now
          (limiterStore (snd (commentarySession cfg L env now (ws, c) s)))
        = remaining (commentaryLimiter cfg) (userKey (user c)) now (limiterStore s) - 1"
    using assms(4) by (simp add: st remaining_after_consume commentaryLimiter_duration)
  show "remaining (stateLimiter cfg) k t
          (limiterStore (snd (commentarySession cfg L env now (ws, c) s)))
        = remaining (stateLimiter cfg) k t (limiterStore s)"
    by (simp add: st remaining_other_prefix limiter_prefixes)
qed

lemma coachingSession_meta:
  "metaByWs coachingSession 0
     = Some \<lparr>lastCommentAt = Some 0, lastCoachAt = Some 0, coachEnabled = Some True,
             lastState = snapshot (JNum 4)\<rparr>"
  by code_simp

text \<open>
  With a budget of one call per minute, a coach tip uses it up and the commentary
  scheduler is rate-limited at its next tick.
\<close>

theorem shared_commentary_budget_witness:
  "remaining (commentaryLimiter (defaultConfig\<lparr>commentaryLimitPerMinute := 1\<rparr>)) (JStr ''dev-user'')
      20000
      (limiterStore (snd (coachSession (defaultConfig\<lparr>commentaryLimitPerMinute := 1\<rparr>) proseEnv 20000
         (0, \<lparr>user = devUser, readyOpen = True\<rparr>) coachingSession))) = 0
   \<and> sentTo 0 (run (defaultConfig\<lparr>commentaryLimitPerMinute := 1\<rparr>) exampleLib
        [InCoachTick 20000 proseEnv, InCommentaryTick 20000 proseEnv] coachingSession)
     = [EvWelcome devUser, EvCoachStatus True, EvCoach (generateSimulatedCoachTip 0),
        EvCommentary (Plain ''[commentary rate-limited]'')]"
proof -
  let ?cfg = "defaultConfig\<lparr>commentaryLimitPerMinute := 1\<rparr>"
  let ?c = "\<lparr>user = devUser, readyOpen = True\<rparr>"
  let ?m = "\<lparr>lastCommentAt = Some 0, lastCoachAt = Some 0, coachEnabled = Some True,
             lastState = snapshot (JNum 4)\<rparr>"
  have k: "userKey (user ?c) = JStr ''dev-user''"
    by (simp add: userKey_def devUser_def optProp_def orElse_def)
  have r: "remaining (commentaryLimiter ?cfg) (JStr ''dev-user'') 20000 (limiterStore coachingSession) = 1"
    by code_simp
  have t: "truthy (lastState ?m)"
    by (simp add: snapshot_def)
  have i: "coachIntervalMs ?cfg \<le> 20000 - orZero (lastCoachAt ?m)"
    by (simp add: defaultConfig_def)
  have e: "sentTo 0 (run ?cfg exampleLib
        [InCoachTick 20000 proseEnv, InCommentaryTick 20000 proseEnv] coachingSession)
     = [EvWelcome devUser, EvCoachStatus True, EvCoach (generateSimulatedCoachTip 0),
        EvCommentary (Plain ''[commentary rate-limited]'')]"
    by code_simp
  show ?thesis
    using shared_commentary_budget [OF coachingSession_meta, of ?c ?cfg 20000 proseEnv JNull 0 exampleLib]
      k r t i e
    by simp
qed

subsection \<open>Overlapping ticks\<close>

text \<open>
  A tick that nothing overtakes does what the loop of the section on the two schedulers
  does: here one tick of the simulated generator on one connection.
\<close>

lemma lone_tick_agrees:
  "sent (core (asyncRun defaultConfig exampleLib [TickFires 5000, ConsumeSettles 0 5000 proseEnv]
           (idle playing)))
     = sent (snd (commentaryTick defaultConfig exampleLib proseEnv 5000 playing))
   \<and> calls (core (asyncRun defaultConfig exampleLib [TickFires 5000, ConsumeSettles 0 5000 proseEnv]
           (idle playing)))
     = calls (snd (commentaryTick defaultConfig exampleLib proseEnv 5000 playing))
   \<and> metaByWs (core (asyncRun defaultConfig exampleLib [TickFires 5000, ConsumeSettles 0 5000 proseEnv]
           (idle playing))) 0
     = metaByWs (snd (commentaryTick defaultConfig exampleLib proseEnv 5000 playing)) 0"
  by code_simp

text \<open>
  Claim C4 fails when a stream is slow. The first tick reaches connection 1 only when its
  stream for connection 0 has ended, at 12000, and writes its own start time 10000 into
  \<^verbatim>\<open>lastCommentAt\<close>; the second tick, started at 11200, reaches connection 1 at 12100 and
  passes the interval gate against that stale time. The generator is called for connection
  1 at 12000 and at 12100, 100 ms apart under an interval of 1200 ms.
\<close>

theorem overlapping_ticks_double_fire:
  "commentaryTimes 1 (calls (core (asyncRun providerConfig exampleLib slowStream (idle twoPlaying))))
     = [12000, 12100]
   \<and> \<not> spaced (commentaryIntervalMs providerConfig)
         (commentaryTimes 1
            (calls (core (asyncRun providerConfig exampleLib slowStream (idle twoPlaying)))))
   \<and> map_option lastCommentAt
       (metaByWs (core (asyncRun providerConfig exampleLib (take 7 slowStream) (idle twoPlaying))) 1)
     = Some (Some 10000)
   \<and> map_option lastCommentAt
       (metaByWs (core (asyncRun providerConfig exampleLib slowStream (idle twoPlaying))) 1)
     = Some (Some 11200)
   \<and> commentaryTimes 0 (calls (core (asyncRun providerConfig exampleLib slowStream (idle twoPlaying))))
     = [10000, 11200]"
  by code_simp

end
